theory Spec2Isabelle
  imports Main "HOL-Library.Word"
begin

unbundle bit_operations_syntax

section \<open>Bytes, hashes and indices\<close>

text \<open>
  A Go \<open>[]byte\<close> is a list of 8-bit words, \<open>hornet.Hash\<close> is a \<open>[]byte\<close>,
  \<open>milestone.Index\<close> is a \<open>uint32\<close>. Slices are modelled with capacity equal
  to length, so a slice expression beyond the length is the run-time panic.
\<close>

type_synonym byte = "8 word"
type_synonym bytes = "byte list"
type_synonym Hash = bytes
type_synonym Index = "32 word"

definition HashSize :: nat where
  "HashSize = 49"

text \<open>
  Modelled from the spec: package \<open>milestone\<close> is not among the sources; the
  spec gives every index as a 4-byte value, so \<open>milestone.IndexByteSize\<close> is 4.
\<close>

definition IndexByteSize :: nat where
  "IndexByteSize = 4"

text \<open>\<open>binary.LittleEndian.PutUint32\<close> and \<open>binary.LittleEndian.Uint32\<close>
  on the first four bytes of a slice; both panic on a slice shorter than four bytes.\<close>

definition le32 :: "Index \<Rightarrow> bytes" where
  "le32 v = [ucast v, ucast (drop_bit 8 v), ucast (drop_bit 16 v), ucast (drop_bit 24 v)]"

definition Uint32 :: "bytes \<Rightarrow> Index option" where
  "Uint32 b = (case b of
      b0 # b1 # b2 # b3 # _ \<Rightarrow>
        Some (ucast b0 OR push_bit 8 (ucast b1) OR push_bit 16 (ucast b2) OR push_bit 24 (ucast b3))
    | _ \<Rightarrow> None)"

definition PutUint32 :: "bytes \<Rightarrow> Index \<Rightarrow> bytes option" where
  "PutUint32 b v = (if length b < 4 then None else Some (le32 v @ drop 4 b))"

text \<open>Go's \<open>copy(dst, src)\<close>: the first \<open>min (len dst) (len src)\<close> bytes of
  \<open>dst\<close> are overwritten, the rest of \<open>dst\<close> stays.\<close>

definition copy_bytes :: "bytes \<Rightarrow> bytes \<Rightarrow> bytes" where
  "copy_bytes dst src = take (length dst) src @ drop (length src) dst"

text \<open>Writing through the sub-slice \<open>value[lo:hi]\<close> of a buffer.\<close>

definition slice :: "bytes \<Rightarrow> nat \<Rightarrow> nat \<Rightarrow> bytes" where
  "slice b lo hi = take (hi - lo) (drop lo b)"

definition store_slice :: "bytes \<Rightarrow> nat \<Rightarrow> nat \<Rightarrow> bytes \<Rightarrow> bytes" where
  "store_slice b lo hi new = take lo b @ new @ drop hi b"

text \<open>What \<open>copy\<close> leaves in a zeroed window of \<open>HashSize\<close> bytes.\<close>

definition padHash :: "Hash \<Rightarrow> bytes" where
  "padHash h = take HashSize h @ replicate (HashSize - length h) 0"

section \<open>The bit mask of hive.go\<close>

text \<open>\<open>bitmask.BitMask\<close> is a byte; \<open>1 << pos\<close> is computed in that byte.\<close>

type_synonym BitMask = byte

definition SetBit :: "BitMask \<Rightarrow> nat \<Rightarrow> BitMask" where
  "SetBit m pos = m OR push_bit pos 1"

definition ClearBit :: "BitMask \<Rightarrow> nat \<Rightarrow> BitMask" where
  "ClearBit m pos = m AND NOT (push_bit pos 1)"

definition HasBit :: "BitMask \<Rightarrow> nat \<Rightarrow> bool" where
  "HasBit m pos = (m AND push_bit pos 1 > 0)"

definition ModifyBit :: "BitMask \<Rightarrow> nat \<Rightarrow> bool \<Rightarrow> BitMask" where
  "ModifyBit m pos state = (if state then SetBit m pos else ClearBit m pos)"

definition TransactionMetadataSolid :: nat where "TransactionMetadataSolid = 0"
definition TransactionMetadataConfirmed :: nat where "TransactionMetadataConfirmed = 1"
definition TransactionMetadataConflicting :: nat where "TransactionMetadataConflicting = 2"
definition TransactionMetadataIsHead :: nat where "TransactionMetadataIsHead = 3"
definition TransactionMetadataIsTail :: nat where "TransactionMetadataIsTail = 4"
definition TransactionMetadataIsValue :: nat where "TransactionMetadataIsValue = 5"
definition TransactionMetadataIsMilestone :: nat where "TransactionMetadataIsMilestone = 6"

section \<open>Transaction metadata and its codec\<close>

record TransactionMetadata =
  txHash :: Hash
  metadata :: BitMask
  confirmationIndex :: Index
  trunkHash :: Hash
  branchHash :: Hash
  bundleHash :: Hash
  milestoneIndex :: Index

definition NewTransactionMetadata :: "Hash \<Rightarrow> TransactionMetadata" where
  "NewTransactionMetadata h =
     \<lparr>txHash = h, metadata = 0, confirmationIndex = 0, trunkHash = [], branchHash = [],
      bundleHash = [], milestoneIndex = 0\<rparr>"

definition TransactionMetadataSize :: nat where
  "TransactionMetadataSize = 1 + IndexByteSize + HashSize + HashSize + HashSize + IndexByteSize"

text \<open>\<open>TransactionMetadata.Marshal\<close>: a zeroed buffer of \<open>TransactionMetadataSize\<close>
  bytes, filled field by field through sub-slices. \<open>PutUint32\<close> is applied to slices of
  at least four bytes here, so the \<open>None\<close> branch leaves the buffer as it is.\<close>

definition put32_at :: "bytes \<Rightarrow> nat \<Rightarrow> nat \<Rightarrow> Index \<Rightarrow> bytes" where
  "put32_at b lo hi v =
     (case PutUint32 (slice b lo hi) v of None \<Rightarrow> b | Some s \<Rightarrow> store_slice b lo hi s)"

definition copy_at :: "bytes \<Rightarrow> nat \<Rightarrow> nat \<Rightarrow> bytes \<Rightarrow> bytes" where
  "copy_at b lo hi src = store_slice b lo hi (copy_bytes (slice b lo hi) src)"

definition Marshal :: "TransactionMetadata \<Rightarrow> bytes" where
  "Marshal m =
     (let hashSize = HashSize;
          msIndexSize = IndexByteSize;
          v0 = replicate TransactionMetadataSize (0 :: byte);
          v1 = v0[0 := metadata m];
          v2 = put32_at v1 1 (1 + msIndexSize) (confirmationIndex m);
          v3 = copy_at v2 (1 + msIndexSize + 0 * hashSize) (1 + msIndexSize + 1 * hashSize) (trunkHash m);
          v4 = copy_at v3 (1 + msIndexSize + 1 * hashSize) (1 + msIndexSize + 2 * hashSize) (branchHash m);
          v5 = copy_at v4 (1 + msIndexSize + 2 * hashSize) (1 + msIndexSize + 3 * hashSize) (bundleHash m);
          v6 = put32_at v5 (1 + msIndexSize + 3 * hashSize) (length v5) (milestoneIndex m)
      in v6)"

section \<open>Schema versions\<close>

datatype goerr =
    ErrKeyNotFound
  | ErrOperationAborted
  | Errorf string
  | Wrapf goerr string

text \<open>\<open>ierrors.Is\<close>: the error itself or one it wraps.\<close>

fun errors_Is :: "goerr \<Rightarrow> goerr \<Rightarrow> bool" where
  "errors_Is (Wrapf e s) target = (Wrapf e s = target \<or> errors_Is e target)"
| "errors_Is e target = (e = target)"

definition supportedDatabaseVersionUpgradeFunc :: "byte \<Rightarrow> byte \<Rightarrow> goerr option" where
  "supportedDatabaseVersionUpgradeFunc oldVersion newVersion =
     (if \<not> (oldVersion = 2 \<and> newVersion = 3)
      then Some (Errorf ''unsupported database version migration'')
      else None)"

section \<open>Failures\<close>

text \<open>
  A Go panic is a value of its own, apart from a returned \<open>error\<close>. The text of an
  error message is not modelled: the messages are built with \<open>Hash.Trytes\<close>, so a
  run that ends here with an error ends in the source with that error or with a panic
  raised while formatting it.
\<close>

datatype panic =
    PanicGetFailed goerr
  | PanicFactory goerr
  | PanicSliceBounds
  | PanicTxNotFound
  | PanicMessage string

section \<open>The collaborators: transaction payload and bundle\<close>

text \<open>
  Modelled from the spec: the transaction payload type and the bundle type of package
  \<open>database\<close> are not among the sources. The spec describes the payload as providing
  trunk, branch and bundle hashes, a timestamp and the head, tail and value predicates;
  the record holds what the functions below read from it (\<open>tx.TrunkHash()\<close>,
  \<open>tx.IsHead()\<close>, \<open>tx.Tx.ObsoleteTag\<close>, \<open>tx.Tx.Timestamp\<close>, ...). Of a bundle the
  migration reads \<open>bundle.hash\<close>, \<open>bundle.tailTx\<close> and \<open>bundle.IsMilestone()\<close>.
\<close>

record Transaction =
  tx_TrunkHash :: Hash
  tx_BranchHash :: Hash
  tx_BundleHash :: Hash
  tx_IsHead :: bool
  tx_IsTail :: bool
  tx_IsValue :: bool
  tx_ObsoleteTag :: string
  tx_Timestamp :: "64 word"

record Bundle =
  bundle_hash :: Hash
  bundle_tailTx :: Hash
  bundle_IsMilestone :: bool

section \<open>Decoding a stored metadata record\<close>

text \<open>\<open>TransactionMetadata.Unmarshal\<close> of the current layout; every index or slice
  expression out of range is the panic.\<close>

definition Unmarshal :: "TransactionMetadata \<Rightarrow> bytes \<Rightarrow> panic + TransactionMetadata" where
  "Unmarshal m data =
     (let hashSize = HashSize; msIndexSize = IndexByteSize in
      if data = [] then Inl PanicSliceBounds
      else if length data < 1 + msIndexSize + 3 * hashSize then Inl PanicSliceBounds
      else (case (Uint32 (slice data 1 (1 + msIndexSize)), Uint32 (drop (1 + msIndexSize + 3 * hashSize) data)) of
          (Some c, Some ms) \<Rightarrow>
            Inr (m\<lparr>metadata := hd data,
                   confirmationIndex := c,
                   trunkHash := slice data (1 + msIndexSize + 0 * hashSize) (1 + msIndexSize + 1 * hashSize),
                   branchHash := slice data (1 + msIndexSize + 1 * hashSize) (1 + msIndexSize + 2 * hashSize),
                   bundleHash := slice data (1 + msIndexSize + 2 * hashSize) (1 + msIndexSize + 3 * hashSize),
                   milestoneIndex := ms\<rparr>)
        | _ \<Rightarrow> Inl PanicSliceBounds))"

section \<open>The query facade\<close>

text \<open>
  A realm that is only read is the function \<open>Get\<close> of its store: \<open>Inr\<close> the value,
  \<open>Inl\<close> the error (\<open>ErrKeyNotFound\<close> for an absent key, anything else for a failure
  of the engine). A realm that is scanned is the list of its keys in iteration order.
  \<open>db.TransactionOrNil\<close> and \<open>metadataFactory\<close> are not among the sources and are
  taken as given.
\<close>

record Database =
  db_metadataStore :: "bytes \<Rightarrow> goerr + bytes"
  db_milestoneStore :: "bytes \<Rightarrow> goerr + bytes"
  db_bundleTransactionsStore :: "bytes list"
  db_TransactionOrNil :: "Hash \<Rightarrow> panic + Transaction option"
  db_metadataFactory :: "bytes \<Rightarrow> bytes \<Rightarrow> goerr + TransactionMetadata"



definition databaseKeyForMilestoneIndex :: "Index \<Rightarrow> bytes" where
  "databaseKeyForMilestoneIndex i =
     (case PutUint32 (replicate 4 0) i of Some b \<Rightarrow> b | None \<Rightarrow> replicate 4 0)"





section \<open>Scanning the bundle-transactions realm\<close>

definition BundleTxIsTail :: byte where
  "BundleTxIsTail = 1"

definition databaseKeyPrefixForBundleHash :: "Hash \<Rightarrow> bytes" where
  "databaseKeyPrefixForBundleHash h = h"

definition hasPrefix :: "bytes \<Rightarrow> bytes \<Rightarrow> bool" where
  "hasPrefix p k = (take (length p) k = p)"

text \<open>
  \<open>IterateKeys\<close> of the store: the consumer is called on every key with the prefix, in
  the order of the store, until it returns \<open>false\<close>. The consumer is a closure; the
  variables it captures are the state \<open>s\<close> it takes and returns. The store is open
  during every scan here, so the iteration itself returns no error.
\<close>

fun iterate :: "('s \<Rightarrow> 'k \<Rightarrow> panic + (bool \<times> 's)) \<Rightarrow> 's \<Rightarrow> 'k list \<Rightarrow> panic + 's" where
  "iterate f s [] = Inr s"
| "iterate f s (k # ks) =
     (case f s k of
        Inl p \<Rightarrow> Inl p
      | Inr (cont, s') \<Rightarrow> if cont then iterate f s' ks else Inr s')"

definition IterateKeys :: "bytes list \<Rightarrow> bytes \<Rightarrow> ('s \<Rightarrow> bytes \<Rightarrow> panic + (bool \<times> 's)) \<Rightarrow> 's \<Rightarrow> panic + 's" where
  "IterateKeys st p f s = iterate f s (filter (hasPrefix p) st)"

text \<open>
  The consumer of \<open>BundleTransactionHashes\<close> captures the counter \<open>i\<close>, which counts
  its calls, and the result slice. \<open>maxFind\<close> is the variadic parameter.
\<close>

definition bundleTransactionHashesConsumer ::
  "int list \<Rightarrow> nat \<times> Hash list \<Rightarrow> bytes \<Rightarrow> panic + (bool \<times> (nat \<times> Hash list))" where
  "bundleTransactionHashesConsumer maxFind s key =
     (let i = fst s + 1 in
      if length maxFind > 0 \<and> int i > hd maxFind then Inr (False, (i, snd s))
      else if length key < 99 then Inl PanicSliceBounds
      else Inr (True, (i, snd s @ [slice key 50 99])))"



section \<open>The legacy metadata accessor\<close>

text \<open>
  The accessor of the schema before version 3: the record has no milestone index, and
  the hashes are present only in a stored record of \<open>21 + 3 * 49\<close> bytes.
\<close>

record LegacyTransactionMetadata =
  legacy_txHash :: Hash
  legacy_metadata :: BitMask
  legacy_confirmationIndex :: Index
  legacy_trunkHash :: Hash
  legacy_branchHash :: Hash
  legacy_bundleHash :: Hash

definition legacy_NewTransactionMetadata :: "Hash \<Rightarrow> LegacyTransactionMetadata" where
  "legacy_NewTransactionMetadata h =
     \<lparr>legacy_txHash = h, legacy_metadata = 0, legacy_confirmationIndex = 0,
      legacy_trunkHash = [], legacy_branchHash = [], legacy_bundleHash = []\<rparr>"

definition legacy_SetAdditionalTxInfo ::
  "LegacyTransactionMetadata \<Rightarrow> Hash \<Rightarrow> Hash \<Rightarrow> Hash \<Rightarrow> bool \<Rightarrow> bool \<Rightarrow> bool \<Rightarrow> LegacyTransactionMetadata" where
  "legacy_SetAdditionalTxInfo m trunk branch bundle isHead isTail isValue =
     m\<lparr>legacy_trunkHash := trunk,
       legacy_branchHash := branch,
       legacy_bundleHash := bundle,
       legacy_metadata :=
         ModifyBit (ModifyBit (ModifyBit (legacy_metadata m) TransactionMetadataIsHead isHead)
           TransactionMetadataIsTail isTail) TransactionMetadataIsValue isValue\<rparr>"

definition legacy_Unmarshal :: "LegacyTransactionMetadata \<Rightarrow> bytes \<Rightarrow> panic + LegacyTransactionMetadata" where
  "legacy_Unmarshal m data =
     (if data = [] then Inl PanicSliceBounds
      else if length data < 9 then Inl PanicSliceBounds
      else (case Uint32 (slice data 5 9) of
          None \<Rightarrow> Inl PanicSliceBounds
        | Some c \<Rightarrow>
            (let m1 = m\<lparr>legacy_metadata := hd data, legacy_confirmationIndex := c\<rparr> in
             if length data > 17 then
               (if length data = 21 + 49 + 49 + 49 then
                  Inr (m1\<lparr>legacy_trunkHash := slice data 21 (21 + 49),
                          legacy_branchHash := slice data (21 + 49) (21 + 49 + 49),
                          legacy_bundleHash := slice data (21 + 49 + 49) (21 + 49 + 49 + 49)\<rparr>)
                else Inr m1)
             else Inr m1)))"

text \<open>The store, the factory and \<open>TransactionOrNil\<close> of the legacy database are the
  parameters \<open>get\<close>, \<open>factory\<close> and \<open>txOrNil\<close>.\<close>

definition legacy_addAdditionalTxInfoToMetadata ::
  "(Hash \<Rightarrow> panic + Transaction option) \<Rightarrow> LegacyTransactionMetadata \<Rightarrow> panic + LegacyTransactionMetadata" where
  "legacy_addAdditionalTxInfoToMetadata txOrNil m =
     (let trunk = legacy_trunkHash m;
          branch = legacy_trunkHash m in
      if length trunk = 0 \<or> length branch = 0 then
        (case txOrNil (legacy_txHash m) of
           Inl p \<Rightarrow> Inl p
         | Inr None \<Rightarrow> Inl PanicTxNotFound
         | Inr (Some tx) \<Rightarrow>
             Inr (legacy_SetAdditionalTxInfo m (tx_TrunkHash tx) (tx_BranchHash tx) (tx_BundleHash tx)
                    (tx_IsHead tx) (tx_IsTail tx) (tx_IsValue tx)))
      else Inr m)"

definition legacy_TxMetadataOrNil ::
  "(bytes \<Rightarrow> goerr + bytes) \<Rightarrow> (bytes \<Rightarrow> bytes \<Rightarrow> goerr + LegacyTransactionMetadata) \<Rightarrow>
   (Hash \<Rightarrow> panic + Transaction option) \<Rightarrow> Hash \<Rightarrow> panic + LegacyTransactionMetadata option" where
  "legacy_TxMetadataOrNil get factory txOrNil txh =
     (let key = txh in
      case get key of
        Inl err \<Rightarrow>
          if \<not> errors_Is err ErrKeyNotFound then Inl (PanicGetFailed err) else Inr None
      | Inr data \<Rightarrow>
          (case factory key data of
             Inl err \<Rightarrow> Inl (PanicFactory err)
           | Inr txMeta \<Rightarrow>
               (case legacy_addAdditionalTxInfoToMetadata txOrNil txMeta of
                  Inl p \<Rightarrow> Inl p
                | Inr txMeta' \<Rightarrow> Inr (Some txMeta'))))"

section \<open>The migration from version 2 to version 3\<close>

text \<open>
  The realms the migration reads, the factories of package \<open>database\<close> that are not
  among the sources (\<open>transactionFactory\<close>, \<open>bundleFactory\<close>, \<open>databaseKeyForBundle\<close>),
  \<open>trinary.TrytesToInt\<close>, and what the outside world decides: \<open>metadataSetErr\<close> is the
  error of \<open>metadataStore.Set\<close> at a key, \<open>ctxDoneOuter n\<close> says that at the \<open>n\<close>-th
  metadata record the status interval had elapsed and the context was done, and
  \<open>ctxDoneInner n j\<close> the same at the \<open>j\<close>-th tail key scanned for that record.
\<close>

record MigrationEnv =
  txStore :: "bytes \<Rightarrow> goerr + bytes"
  bundleStore :: "bytes \<Rightarrow> goerr + bytes"
  bundleTransactionsStore :: "bytes list"
  transactionFactory :: "Hash \<Rightarrow> bytes \<Rightarrow> goerr + Transaction"
  bundleFactory :: "bytes \<Rightarrow> bytes \<Rightarrow> goerr + Bundle"
  databaseKeyForBundle :: "Hash \<Rightarrow> bytes"
  TrytesToInt :: "string \<Rightarrow> int"
  metadataSetErr :: "bytes \<Rightarrow> goerr option"
  ctxDoneOuter :: "nat \<Rightarrow> bool"
  ctxDoneInner :: "nat \<Rightarrow> nat \<Rightarrow> bool"

text \<open>The conversion \<open>milestone.Index(int64)\<close> keeps the low 32 bits.\<close>

definition getBundleMilestoneIndex :: "MigrationEnv \<Rightarrow> Bundle \<Rightarrow> goerr + Index" where
  "getBundleMilestoneIndex env bundle =
     (if length (bundle_tailTx bundle) = 0 then Inl (Errorf ''tail hash can never be empty'')
      else (case txStore env (bundle_tailTx bundle) of
          Inl err \<Rightarrow>
            if \<not> errors_Is err ErrKeyNotFound
            then Inl (Wrapf err ''failed to get transaction from database'')
            else Inl (Errorf ''bundle has a reference to a non persisted transaction'')
        | Inr tailTxData \<Rightarrow>
            (case transactionFactory env (bundle_tailTx bundle) tailTxData of
               Inl err \<Rightarrow> Inl (Wrapf err ''failed to parse data for transaction'')
             | Inr tailTx \<Rightarrow> Inr (word_of_int (TrytesToInt env (tx_ObsoleteTag tailTx))))))"

text \<open>
  Modelled from the spec: the cache is \<open>lru.New\<close> of an external library, which the
  spec describes as a cache of bounded capacity with least-recently-used eviction. The
  list holds the most recently used entry first.
\<close>

type_synonym cache = "(bytes \<times> Index) list"

definition milestoneCacheSize :: nat where
  "milestoneCacheSize = 10000000"

definition lru_Get :: "cache \<Rightarrow> bytes \<Rightarrow> Index option \<times> cache" where
  "lru_Get c k =
     (case map_of c k of
        None \<Rightarrow> (None, c)
      | Some v \<Rightarrow> (Some v, (k, v) # filter (\<lambda>e. fst e \<noteq> k) c))"

definition lru_Add :: "cache \<Rightarrow> bytes \<Rightarrow> Index \<Rightarrow> cache" where
  "lru_Add c k v =
     (let c' = (k, v) # filter (\<lambda>e. fst e \<noteq> k) c in
      if length c' > milestoneCacheSize then butlast c' else c')"

text \<open>The consumer of the scan over the tail keys of one bundle hash captures
  \<open>bundleTransactionsCounter\<close>, \<open>milestoneIndex\<close> and \<open>innerErr\<close>.\<close>

record ScanState =
  bundleTransactionsCounter :: nat
  scan_milestoneIndex :: Index
  scan_innerErr :: "goerr option"

definition tailConsumer :: "MigrationEnv \<Rightarrow> nat \<Rightarrow> ScanState \<Rightarrow> bytes \<Rightarrow> panic + (bool \<times> ScanState)" where
  "tailConsumer env n s key =
     (let s1 = s\<lparr>bundleTransactionsCounter := bundleTransactionsCounter s + 1\<rparr> in
      if ctxDoneInner env n (bundleTransactionsCounter s1)
      then Inr (False, s1\<lparr>scan_innerErr := Some ErrOperationAborted\<rparr>)
      else if length key < 99 then Inl PanicSliceBounds
      else
        (let bundleKey = databaseKeyForBundle env (slice key 50 99) in
         case bundleStore env bundleKey of
           Inl err \<Rightarrow>
             if \<not> errors_Is err ErrKeyNotFound
             then Inr (False, s1\<lparr>scan_innerErr := Some (Wrapf err ''failed to get bundle from database'')\<rparr>)
             else Inr (True, s1)
         | Inr bundleData \<Rightarrow>
             (case bundleFactory env bundleKey bundleData of
                Inl err \<Rightarrow>
                  Inr (False, s1\<lparr>scan_innerErr := Some (Wrapf err ''failed to get bundle from database'')\<rparr>)
              | Inr bundle \<Rightarrow>
                  if bundle_IsMilestone bundle then
                    (case getBundleMilestoneIndex env bundle of
                       Inl err \<Rightarrow>
                         Inr (False, s1\<lparr>scan_innerErr := Some (Wrapf err ''failed to get milestone index for bundle'')\<rparr>)
                     | Inr msIndex \<Rightarrow> Inr (False, s1\<lparr>scan_milestoneIndex := msIndex\<rparr>))
                  else Inr (True, s1))))"

definition scanTails :: "MigrationEnv \<Rightarrow> nat \<Rightarrow> Hash \<Rightarrow> ScanState \<Rightarrow> panic + ScanState" where
  "scanTails env n bh s =
     IterateKeys (bundleTransactionsStore env) (databaseKeyPrefixForBundleHash bh @ [BundleTxIsTail])
       (tailConsumer env n) s"

text \<open>The consumer of the iteration over the metadata realm captures the cache, the
  counter and \<open>innerErr\<close>; \<open>metadataStore\<close> is the realm it writes to.\<close>

record MigrationState =
  metadataStore :: "(bytes \<times> bytes) list"
  milestoneCache :: cache
  innerErr :: "goerr option"
  transactionsCounter :: nat

fun kv_Set :: "(bytes \<times> bytes) list \<Rightarrow> bytes \<Rightarrow> bytes \<Rightarrow> (bytes \<times> bytes) list" where
  "kv_Set [] k v = [(k, v)]"
| "kv_Set ((k', v') # es) k v = (if k' = k then (k, v) # es else (k', v') # kv_Set es k v)"

text \<open>Resolving the milestone index of the bundle of \<open>tx\<close>: the cache, and on a miss
  the scan, whose result (also after a scan that stopped on an error) goes into the cache.\<close>

definition resolveMilestoneIndex ::
  "MigrationEnv \<Rightarrow> MigrationState \<Rightarrow> Transaction \<Rightarrow> panic + (Index \<times> MigrationState)" where
  "resolveMilestoneIndex env st tx =
     (if length (tx_BundleHash tx) < 49 then Inl PanicSliceBounds
      else
        (let milestoneCacheKey = take 49 (tx_BundleHash tx) in
         case lru_Get (milestoneCache st) milestoneCacheKey of
           (Some cached, c) \<Rightarrow> Inr (cached, st\<lparr>milestoneCache := c\<rparr>)
         | (None, c) \<Rightarrow>
             (case scanTails env (transactionsCounter st) (tx_BundleHash tx)
                     \<lparr>bundleTransactionsCounter = 0, scan_milestoneIndex = 0, scan_innerErr = innerErr st\<rparr> of
                Inl p \<Rightarrow> Inl p
              | Inr s \<Rightarrow>
                  Inr (scan_milestoneIndex s,
                       st\<lparr>milestoneCache := lru_Add c milestoneCacheKey (scan_milestoneIndex s),
                          innerErr := scan_innerErr s\<rparr>))))"

definition migratedMetadata :: "TransactionMetadata \<Rightarrow> Transaction \<Rightarrow> Index \<Rightarrow> TransactionMetadata" where
  "migratedMetadata txMeta tx msIndex =
     txMeta\<lparr>metadata :=
              ModifyBit (ModifyBit (ModifyBit (ModifyBit (metadata txMeta)
                TransactionMetadataIsHead (tx_IsHead tx))
                TransactionMetadataIsTail (tx_IsTail tx))
                TransactionMetadataIsValue (tx_IsValue tx))
                TransactionMetadataIsMilestone (msIndex \<noteq> 0),
            trunkHash := tx_TrunkHash tx,
            branchHash := tx_BranchHash tx,
            bundleHash := tx_BundleHash tx,
            milestoneIndex := msIndex\<rparr>"

text \<open>What the migration reads of a stored record of the old layout: the bit mask at
  offset 0 and the confirmation index at offset \<open>1 + IndexByteSize\<close>.\<close>

definition legacyFields :: "Hash \<Rightarrow> bytes \<Rightarrow> panic + TransactionMetadata" where
  "legacyFields txh data =
     (if data = [] then Inl PanicSliceBounds
      else if length data < 1 + IndexByteSize then Inl PanicSliceBounds
      else (case Uint32 (drop (1 + IndexByteSize) data) of
          None \<Rightarrow> Inl PanicSliceBounds
        | Some c \<Rightarrow> Inr ((NewTransactionMetadata txh)\<lparr>metadata := hd data, confirmationIndex := c\<rparr>)))"

definition metadataConsumer ::
  "MigrationEnv \<Rightarrow> MigrationState \<Rightarrow> bytes \<times> bytes \<Rightarrow> panic + (bool \<times> MigrationState)" where
  "metadataConsumer env st kd =
     (let key = fst kd; data = snd kd;
          st1 = st\<lparr>transactionsCounter := transactionsCounter st + 1\<rparr> in
      if length key < HashSize then Inl PanicSliceBounds
      else
        (let txh = take HashSize key in
         if ctxDoneOuter env (transactionsCounter st1)
         then Inr (False, st1\<lparr>innerErr := Some ErrOperationAborted\<rparr>)
         else
           (case legacyFields txh data of
              Inl p \<Rightarrow> Inl p
            | Inr txMeta \<Rightarrow>
                (case txStore env txh of
                   Inl err \<Rightarrow>
                     if \<not> errors_Is err ErrKeyNotFound
                     then Inr (False, st1\<lparr>innerErr := Some (Wrapf err ''failed to get transaction from database'')\<rparr>)
                     else Inr (False, st1\<lparr>innerErr := Some (Errorf ''transaction not found'')\<rparr>)
                 | Inr txData \<Rightarrow>
                     (case transactionFactory env txh txData of
                        Inl err \<Rightarrow>
                          Inr (False, st1\<lparr>innerErr := Some (Wrapf err ''failed to parse data for transaction'')\<rparr>)
                      | Inr tx \<Rightarrow>
                          (case resolveMilestoneIndex env st1 tx of
                             Inl p \<Rightarrow> Inl p
                           | Inr (msIndex, st2) \<Rightarrow>
                               (case metadataSetErr env key of
                                  Some err \<Rightarrow>
                                    Inr (False, st2\<lparr>innerErr := Some (Wrapf err ''failed to set updated transaction metadata'')\<rparr>)
                                | None \<Rightarrow>
                                    Inr (True, st2\<lparr>metadataStore :=
                                      kv_Set (metadataStore st2) key
                                        (Marshal (migratedMetadata txMeta tx msIndex))\<rparr>))))))))"

definition migrationStart :: "(bytes \<times> bytes) list \<Rightarrow> MigrationState" where
  "migrationStart md = \<lparr>metadataStore = md, milestoneCache = [], innerErr = None, transactionsCounter = 0\<rparr>"

definition migrationPass :: "MigrationEnv \<Rightarrow> (bytes \<times> bytes) list \<Rightarrow> panic + MigrationState" where
  "migrationPass env md = iterate (metadataConsumer env) (migrationStart md) md"

text \<open>\<open>migrateTangleDatabaseFunc\<close> returns its error (\<open>None\<close> for \<open>nil\<close>) and leaves
  the metadata realm as the second component.\<close>

definition migrateTangleDatabaseFunc ::
  "MigrationEnv \<Rightarrow> (bytes \<times> bytes) list \<Rightarrow> byte \<Rightarrow> byte \<Rightarrow> panic + (goerr option \<times> (bytes \<times> bytes) list)" where
  "migrateTangleDatabaseFunc env md oldVersion newVersion =
     (case supportedDatabaseVersionUpgradeFunc oldVersion newVersion of
        Some err \<Rightarrow> Inr (Some err, md)
      | None \<Rightarrow>
          (case migrationPass env md of
             Inl p \<Rightarrow> Inl p
           | Inr st \<Rightarrow> Inr (innerErr st, metadataStore st)))"

section \<open>A small store\<close>

text \<open>
  One bundle hash \<open>ex_B\<close> with two attachments: the tail \<open>ex_T1\<close> of a bundle that is
  no milestone, and the tail \<open>ex_T2\<close> of a milestone bundle whose tail transaction has
  the obsolete tag of value 7 and the timestamp 1000. \<open>ex_H3\<close> is a further member.
\<close>

definition ex_B :: Hash where "ex_B = replicate 49 11"
definition ex_T1 :: Hash where "ex_T1 = replicate 49 1"
definition ex_T2 :: Hash where "ex_T2 = replicate 49 2"
definition ex_H3 :: Hash where "ex_H3 = replicate 49 3"
definition ex_trunk :: Hash where "ex_trunk = replicate 49 17"
definition ex_branch :: Hash where "ex_branch = replicate 49 18"

definition ex_tx1 :: Transaction where
  "ex_tx1 = \<lparr>tx_TrunkHash = ex_trunk, tx_BranchHash = ex_branch, tx_BundleHash = ex_B,
             tx_IsHead = True, tx_IsTail = True, tx_IsValue = False,
             tx_ObsoleteTag = ''9'', tx_Timestamp = 900\<rparr>"

definition ex_tx2 :: Transaction where
  "ex_tx2 = \<lparr>tx_TrunkHash = ex_trunk, tx_BranchHash = ex_branch, tx_BundleHash = ex_B,
             tx_IsHead = True, tx_IsTail = True, tx_IsValue = False,
             tx_ObsoleteTag = ''G'', tx_Timestamp = 1000\<rparr>"

definition ex_bundleTransactions :: "bytes list" where
  "ex_bundleTransactions = [ex_B @ [0] @ ex_H3, ex_B @ [1] @ ex_T1, ex_B @ [1] @ ex_T2]"

definition ex_meta :: TransactionMetadata where
  "ex_meta = \<lparr>txHash = ex_T2, metadata = 3, confirmationIndex = 5, trunkHash = ex_trunk,
              branchHash = ex_branch, bundleHash = ex_B, milestoneIndex = 7\<rparr>"

definition ex_db :: Database where
  "ex_db = \<lparr>db_metadataStore = (\<lambda>k. if k = ex_T2 then Inr (Marshal ex_meta)
                                   else if k = ex_T1 then Inl (Errorf ''read failed'')
                                   else Inl ErrKeyNotFound),
            db_milestoneStore = (\<lambda>k. if k = databaseKeyForMilestoneIndex 7 then Inr ex_T2
                                    else if k = databaseKeyForMilestoneIndex 8 then Inl (Errorf ''read failed'')
                                    else Inl ErrKeyNotFound),
            db_bundleTransactionsStore = ex_bundleTransactions,
            db_TransactionOrNil = (\<lambda>h. if h = ex_T2 then Inr (Some ex_tx2)
                                      else if h = ex_T1 then Inr (Some ex_tx1) else Inr None),
            db_metadataFactory = (\<lambda>key data. case Unmarshal (NewTransactionMetadata (take HashSize key)) data of
                                      Inl p \<Rightarrow> Inl (Errorf ''malformed record'') | Inr m \<Rightarrow> Inr m)\<rparr>"

definition ex_env :: MigrationEnv where
  "ex_env = \<lparr>txStore = (\<lambda>k. if k = ex_T1 then Inr [1] else if k = ex_T2 then Inr [2] else Inl ErrKeyNotFound),
             bundleStore = (\<lambda>k. if k = ex_T1 then Inr [1] else if k = ex_T2 then Inr [2] else Inl ErrKeyNotFound),
             bundleTransactionsStore = ex_bundleTransactions,
             transactionFactory = (\<lambda>h d. if d = [1] then Inr ex_tx1 else if d = [2] then Inr ex_tx2
                                         else Inl (Errorf ''malformed transaction'')),
             bundleFactory = (\<lambda>k d. if d = [1] then Inr \<lparr>bundle_hash = ex_B, bundle_tailTx = ex_T1, bundle_IsMilestone = False\<rparr>
                                    else if d = [2] then Inr \<lparr>bundle_hash = ex_B, bundle_tailTx = ex_T2, bundle_IsMilestone = True\<rparr>
                                    else Inl (Errorf ''malformed bundle'')),
             databaseKeyForBundle = (\<lambda>h. h),
             TrytesToInt = (\<lambda>t. if t = ''G'' then 7 else 0),
             metadataSetErr = (\<lambda>k. None),
             ctxDoneOuter = (\<lambda>n. False),
             ctxDoneInner = (\<lambda>n j. False)\<rparr>"

text \<open>Two stored records of the old layout, cut after the confirmation index: solid
  and confirmed, confirmed by milestone 5.\<close>

definition ex_metadata :: "(bytes \<times> bytes) list" where
  "ex_metadata = [(ex_T1, [3, 0, 0, 0, 0, 5, 0, 0, 0]), (ex_T2, [3, 0, 0, 0, 0, 5, 0, 0, 0])]"

text \<open>Legacy records: one as a factory of the legacy store would return it with a trunk
  hash and no branch hash, and the factory that decodes a stored record.\<close>

definition ex_legacy_stored :: LegacyTransactionMetadata where
  "ex_legacy_stored = \<lparr>legacy_txHash = ex_T1, legacy_metadata = 3, legacy_confirmationIndex = 5,
      legacy_trunkHash = ex_trunk, legacy_branchHash = [], legacy_bundleHash = []\<rparr>"

definition ex_legacy_short :: LegacyTransactionMetadata where
  "ex_legacy_short = \<lparr>legacy_txHash = ex_T2, legacy_metadata = 3, legacy_confirmationIndex = 5,
      legacy_trunkHash = [], legacy_branchHash = [], legacy_bundleHash = []\<rparr>"

definition ex_legacy_factory :: "bytes \<Rightarrow> bytes \<Rightarrow> goerr + LegacyTransactionMetadata" where
  "ex_legacy_factory key data =
     (case legacy_Unmarshal (legacy_NewTransactionMetadata (take HashSize key)) data of
        Inl p \<Rightarrow> Inl (Errorf ''malformed record'')
      | Inr m \<Rightarrow> Inr m)"

section \<open>What a pass that returns no error has written\<close>

text \<open>
  Notions for the statements about the migration. \<open>noAbort\<close> is the environment in
  which the context is never done during a scan. \<open>resolvedIndex\<close> is the milestone index
  that the scan over the tail keys of a bundle hash ends with when it is not aborted.
  \<open>passRecord\<close> is the record that the consumer composes for a stored record when the
  bundle of its transaction resolves to that index. \<open>storedMetadata\<close> decodes the record
  of a key in the metadata realm. A tail key is \<open>notMilestoneTail\<close> when the scan goes on
  after it: its bundle is not stored, or is stored and is no milestone.
\<close>

definition noAbort :: "MigrationEnv \<Rightarrow> MigrationEnv" where
  "noAbort env = env\<lparr>ctxDoneInner := (\<lambda>n j. False)\<rparr>"

definition resolvedIndex :: "MigrationEnv \<Rightarrow> Hash \<Rightarrow> Index" where
  "resolvedIndex env bh =
     (case scanTails (noAbort env) 0 bh
             \<lparr>bundleTransactionsCounter = 0, scan_milestoneIndex = 0, scan_innerErr = None\<rparr> of
        Inl p \<Rightarrow> 0
      | Inr s \<Rightarrow> scan_milestoneIndex s)"

definition passRecord :: "MigrationEnv \<Rightarrow> bytes \<Rightarrow> bytes \<Rightarrow> bytes option" where
  "passRecord env key data =
     (case legacyFields (take HashSize key) data of
        Inl p \<Rightarrow> None
      | Inr txMeta \<Rightarrow>
          (case txStore env (take HashSize key) of
             Inl err \<Rightarrow> None
           | Inr txData \<Rightarrow>
               (case transactionFactory env (take HashSize key) txData of
                  Inl err \<Rightarrow> None
                | Inr tx \<Rightarrow>
                    Some (Marshal (migratedMetadata txMeta tx (resolvedIndex env (tx_BundleHash tx)))))))"

definition storedMetadata :: "(bytes \<times> bytes) list \<Rightarrow> bytes \<Rightarrow> TransactionMetadata option" where
  "storedMetadata md key =
     (case map_of md key of
        None \<Rightarrow> None
      | Some r \<Rightarrow>
          (case Unmarshal (NewTransactionMetadata (take HashSize key)) r of
             Inl p \<Rightarrow> None
           | Inr m \<Rightarrow> Some m))"

definition notMilestoneTail :: "MigrationEnv \<Rightarrow> bytes \<Rightarrow> bool" where
  "notMilestoneTail env key =
     (99 \<le> length key \<and>
      (case bundleStore env (databaseKeyForBundle env (slice key 50 99)) of
         Inl err \<Rightarrow> errors_Is err ErrKeyNotFound
       | Inr bundleData \<Rightarrow>
           (case bundleFactory env (databaseKeyForBundle env (slice key 50 99)) bundleData of
              Inl err \<Rightarrow> False
            | Inr bundle \<Rightarrow> \<not> bundle_IsMilestone bundle)))"

definition cacheSound :: "MigrationEnv \<Rightarrow> cache \<Rightarrow> bool" where
  "cacheSound env c = (\<forall>k v. (k, v) \<in> set c \<longrightarrow> v = resolvedIndex env k)"

definition hashesWellFormed :: "MigrationEnv \<Rightarrow> bool" where
  "hashesWellFormed env =
     (\<forall>h d tx. transactionFactory env h d = Inr tx \<longrightarrow> length (tx_BundleHash tx) = HashSize)"

text \<open>The records that a pass over \<open>ex_metadata\<close> writes.\<close>

definition ex_record1 :: bytes where
  "ex_record1 = Marshal (migratedMetadata ((NewTransactionMetadata ex_T1)\<lparr>metadata := 3, confirmationIndex := 5\<rparr>) ex_tx1 7)"

definition ex_record2 :: bytes where
  "ex_record2 = Marshal (migratedMetadata ((NewTransactionMetadata ex_T2)\<lparr>metadata := 3, confirmationIndex := 5\<rparr>) ex_tx2 7)"


section \<open>Codec lemmas\<close>

lemma length_le32: "length (le32 v) = 4"
  by (simp add: le32_def)

lemma Uint32_le32: "Uint32 (le32 v @ rest) = Some v"
proof -
  have "ucast (ucast v :: byte) OR push_bit 8 (ucast (ucast (drop_bit 8 v) :: byte))
        OR push_bit 16 (ucast (ucast (drop_bit 16 v) :: byte))
        OR push_bit 24 (ucast (ucast (drop_bit 24 v) :: byte)) = v"
  proof (rule bit_word_eqI)
    fix n assume n: "n < LENGTH(32)"
    consider "n < 8" | "8 \<le> n" "n < 16" | "16 \<le> n" "n < 24" | "24 \<le> n"
      by linarith
    then show "bit (ucast (ucast v :: byte) OR push_bit 8 (ucast (ucast (drop_bit 8 v) :: byte))
        OR push_bit 16 (ucast (ucast (drop_bit 16 v) :: byte))
        OR push_bit 24 (ucast (ucast (drop_bit 24 v) :: byte)) :: Index) n = bit v n"
      using n by cases (auto simp add: bit_simps)
  qed
  then show ?thesis
    by (simp add: Uint32_def le32_def)
qed
lemma HasBit_iff: "HasBit m pos \<longleftrightarrow> bit m pos"
proof -
  have "m AND push_bit pos 1 \<noteq> 0 \<longleftrightarrow> bit m pos"
    by (simp add: push_bit_of_1 and_exp_eq_0_iff_not_bit)
  then show ?thesis
    by (simp add: HasBit_def word_gt_0)
qed

lemma HasBit_ModifyBit_same: "pos < 8 \<Longrightarrow> HasBit (ModifyBit m pos b) pos = b"
  by (simp add: HasBit_iff ModifyBit_def SetBit_def ClearBit_def bit_simps)

lemma HasBit_ModifyBit_other: "pos \<noteq> q \<Longrightarrow> HasBit (ModifyBit m pos b) q = HasBit m q"
  using bit_imp_le_length [of m q]
  by (auto simp add: HasBit_iff ModifyBit_def SetBit_def ClearBit_def bit_simps)

lemma copy_at_window:
  "length pre = lo \<Longrightarrow> hi = lo + length mid \<Longrightarrow>
   copy_at (pre @ mid @ post) lo hi src = pre @ (take (length mid) src @ drop (length src) mid) @ post"
  by (simp add: copy_at_def store_slice_def copy_bytes_def slice_def)

lemma put32_at_window:
  "length pre = lo \<Longrightarrow> hi = lo + length mid \<Longrightarrow> 4 \<le> length mid \<Longrightarrow>
   put32_at (pre @ mid @ post) lo hi v = pre @ (le32 v @ drop 4 mid) @ post"
  by (simp add: put32_at_def PutUint32_def store_slice_def slice_def)

lemma copy_zero_window: "take 49 h @ replicate (49 - length h) (0::byte) = padHash h"
  by (simp add: padHash_def HashSize_def)

lemma length_padHash: "length (padHash h) = 49"
  by (simp add: padHash_def HashSize_def)

lemma padHash_id: "length h = 49 \<Longrightarrow> padHash h = h"
  by (simp add: padHash_def HashSize_def)

lemma Marshal_eq:
  "Marshal m = metadata m # le32 (confirmationIndex m) @ padHash (trunkHash m)
      @ padHash (branchHash m) @ padHash (bundleHash m) @ le32 (milestoneIndex m)"
proof -
  let ?z4 = "replicate 4 (0::byte)" and ?z49 = "replicate 49 (0::byte)"
  let ?c = "le32 (confirmationIndex m)" and ?t = "padHash (trunkHash m)"
  let ?b = "padHash (branchHash m)" and ?u = "padHash (bundleHash m)"
  have split: "replicate 156 (0::byte) = [0] @ ?z4 @ ?z49 @ ?z49 @ ?z49 @ ?z4"
  proof -
    have "replicate (1 + (4 + (49 + (49 + (49 + 4))))) (0::byte) = [0] @ ?z4 @ ?z49 @ ?z49 @ ?z49 @ ?z4"
      unfolding replicate_add by simp
    then show ?thesis by simp
  qed
  have v1: "(replicate 156 (0::byte))[0 := metadata m] = [metadata m] @ ?z4 @ (?z49 @ ?z49 @ ?z49 @ ?z4)"
    by (simp add: split)
  have v2: "put32_at ([metadata m] @ ?z4 @ (?z49 @ ?z49 @ ?z49 @ ?z4)) 1 5 (confirmationIndex m)
            = (metadata m # ?c) @ ?z49 @ (?z49 @ ?z49 @ ?z4)"
    by (subst put32_at_window) simp_all
  have v3: "copy_at ((metadata m # ?c) @ ?z49 @ (?z49 @ ?z49 @ ?z4)) 5 54 (trunkHash m)
            = (metadata m # ?c @ ?t) @ ?z49 @ (?z49 @ ?z4)"
    by (subst copy_at_window) (simp_all add: length_le32 copy_zero_window)
  have v4: "copy_at ((metadata m # ?c @ ?t) @ ?z49 @ (?z49 @ ?z4)) 54 103 (branchHash m)
            = (metadata m # ?c @ ?t @ ?b) @ ?z49 @ ?z4"
    by (subst copy_at_window) (simp_all add: length_le32 length_padHash copy_zero_window)
  have v5: "copy_at ((metadata m # ?c @ ?t @ ?b) @ ?z49 @ ?z4) 103 152 (bundleHash m)
            = (metadata m # ?c @ ?t @ ?b @ ?u) @ ?z4 @ []"
    by (subst copy_at_window) (simp_all add: length_le32 length_padHash copy_zero_window)
  have v6: "put32_at ((metadata m # ?c @ ?t @ ?b @ ?u) @ ?z4 @ []) 152 156 (milestoneIndex m)
            = (metadata m # ?c @ ?t @ ?b @ ?u) @ le32 (milestoneIndex m)"
    by (subst put32_at_window) (simp_all add: length_le32 length_padHash)
  have len5: "length ((metadata m # ?c @ ?t @ ?b @ ?u) @ ?z4 @ []) = 156"
    by (simp add: length_le32 length_padHash)
  show ?thesis
    unfolding Marshal_def Let_def HashSize_def IndexByteSize_def TransactionMetadataSize_def
    using v1 v2 v3 v4 v5 v6 len5 by simp
qed

lemma length_Marshal: "length (Marshal m) = 156"
  by (simp add: Marshal_eq length_le32 length_padHash)

lemma slice_window:
  "length pre = lo \<Longrightarrow> hi = lo + length mid \<Longrightarrow> slice (pre @ mid @ post) lo hi = mid"
  by (simp add: slice_def)

lemma Marshal_slices:
  "slice (Marshal m) 1 5 = le32 (confirmationIndex m)"
  "slice (Marshal m) 5 54 = padHash (trunkHash m)"
  "slice (Marshal m) 54 103 = padHash (branchHash m)"
  "slice (Marshal m) 103 152 = padHash (bundleHash m)"
  "slice (Marshal m) 152 156 = le32 (milestoneIndex m)"
proof -
  let ?c = "le32 (confirmationIndex m)" and ?t = "padHash (trunkHash m)"
  let ?b = "padHash (branchHash m)" and ?u = "padHash (bundleHash m)"
  let ?i = "le32 (milestoneIndex m)"
  have e1: "Marshal m = [metadata m] @ ?c @ (?t @ ?b @ ?u @ ?i)"
    by (simp add: Marshal_eq)
  show "slice (Marshal m) 1 5 = ?c"
    unfolding e1 by (rule slice_window) (simp_all add: length_le32)
  have e2: "Marshal m = (metadata m # ?c) @ ?t @ (?b @ ?u @ ?i)"
    by (simp add: Marshal_eq)
  show "slice (Marshal m) 5 54 = ?t"
    unfolding e2 by (rule slice_window) (simp_all add: length_le32 length_padHash)
  have e3: "Marshal m = (metadata m # ?c @ ?t) @ ?b @ (?u @ ?i)"
    by (simp add: Marshal_eq)
  show "slice (Marshal m) 54 103 = ?b"
    unfolding e3 by (rule slice_window) (simp_all add: length_le32 length_padHash)
  have e4: "Marshal m = (metadata m # ?c @ ?t @ ?b) @ ?u @ ?i"
    by (simp add: Marshal_eq)
  show "slice (Marshal m) 103 152 = ?u"
    unfolding e4 by (rule slice_window) (simp_all add: length_le32 length_padHash)
  have e5: "Marshal m = (metadata m # ?c @ ?t @ ?b @ ?u) @ ?i @ []"
    by (simp add: Marshal_eq)
  show "slice (Marshal m) 152 156 = ?i"
    unfolding e5 by (rule slice_window) (simp_all add: length_le32 length_padHash)
qed

section \<open>The record layout\<close>

text \<open>
  C5. For every metadata value \<open>Marshal\<close> produces exactly 156 bytes: the bit mask at
  offset 0, the confirmation index in four little-endian bytes at offset 1, the trunk,
  branch and bundle hashes in 49 bytes each at offsets 5, 54 and 103, and the milestone
  index in four little-endian bytes at offset 152. A hash field holds what \<open>copy\<close>
  leaves in its zeroed window, which is the hash itself when the hash has 49 bytes.
\<close>

theorem Marshal_layout:
  "length (Marshal m) = 156 \<and> TransactionMetadataSize = 156
   \<and> Marshal m ! 0 = metadata m
   \<and> slice (Marshal m) 1 5 = le32 (confirmationIndex m)
   \<and> slice (Marshal m) 5 54 = padHash (trunkHash m)
   \<and> slice (Marshal m) 54 103 = padHash (branchHash m)
   \<and> slice (Marshal m) 103 152 = padHash (bundleHash m)
   \<and> slice (Marshal m) 152 156 = le32 (milestoneIndex m)
   \<and> (length (trunkHash m) = HashSize \<longrightarrow> slice (Marshal m) 5 54 = trunkHash m)
   \<and> (length (branchHash m) = HashSize \<longrightarrow> slice (Marshal m) 54 103 = branchHash m)
   \<and> (length (bundleHash m) = HashSize \<longrightarrow> slice (Marshal m) 103 152 = bundleHash m)"
proof -
  note s = Marshal_slices [of m]
  have l: "length (Marshal m) = 156"
    by (rule length_Marshal)
  have h: "Marshal m ! 0 = metadata m"
    by (simp add: Marshal_eq)
  show ?thesis
    using s l h
    by (simp add: padHash_id HashSize_def TransactionMetadataSize_def IndexByteSize_def)
qed

lemma ex_lengths [simp]:
  "length ex_B = 49" "length ex_T1 = 49" "length ex_T2 = 49" "length ex_H3 = 49"
  "length ex_trunk = 49" "length ex_branch = 49"
  by (simp_all add: ex_B_def ex_T1_def ex_T2_def ex_H3_def ex_trunk_def ex_branch_def)

theorem Marshal_layout_witness:
  "length (trunkHash ex_meta) = HashSize \<and> length (branchHash ex_meta) = HashSize
   \<and> length (bundleHash ex_meta) = HashSize
   \<and> length (Marshal ex_meta) = 156
   \<and> Marshal ex_meta ! 0 = 3
   \<and> slice (Marshal ex_meta) 1 5 = [5, 0, 0, 0]
   \<and> slice (Marshal ex_meta) 5 54 = ex_trunk
   \<and> slice (Marshal ex_meta) 54 103 = ex_branch
   \<and> slice (Marshal ex_meta) 103 152 = ex_B
   \<and> slice (Marshal ex_meta) 152 156 = [7, 0, 0, 0]"
  using Marshal_layout [of ex_meta]
  by (simp add: ex_meta_def HashSize_def le32_def padHash_id TransactionMetadataSize_def IndexByteSize_def)

section \<open>The version guard\<close>

text \<open>
  C7. \<open>supportedDatabaseVersionUpgradeFunc\<close> returns \<open>nil\<close> if and only if the old
  version is 2 and the new version is 3; for every other pair, a stored version above the
  expected one among them, the migration returns the unsupported-migration error and
  leaves the metadata realm as it was.
\<close>

theorem supported_upgrade:
  "(supportedDatabaseVersionUpgradeFunc oldVersion newVersion = None) = (oldVersion = 2 \<and> newVersion = 3)
   \<and> (\<not> (oldVersion = 2 \<and> newVersion = 3) \<longrightarrow>
        migrateTangleDatabaseFunc env md oldVersion newVersion
          = Inr (Some (Errorf ''unsupported database version migration''), md))"
  by (simp add: supportedDatabaseVersionUpgradeFunc_def migrateTangleDatabaseFunc_def)


theorem supported_upgrade_witness:
  "\<not> ((3 :: byte) = 2 \<and> (2 :: byte) = 3)
   \<and> supportedDatabaseVersionUpgradeFunc 3 2 \<noteq> None
   \<and> migrateTangleDatabaseFunc ex_env ex_metadata 3 2
       = Inr (Some (Errorf ''unsupported database version migration''), ex_metadata)"
  using supported_upgrade [of 3 2 ex_env ex_metadata]
  by simp

section \<open>Point lookups\<close>


lemma ex_neq [simp]:
  "ex_T1 \<noteq> ex_T2" "ex_T2 \<noteq> ex_T1" "ex_H3 \<noteq> ex_T1" "ex_H3 \<noteq> ex_T2" "ex_T1 \<noteq> ex_H3" "ex_T2 \<noteq> ex_H3"
  by (simp_all add: ex_T1_def ex_T2_def ex_H3_def)

lemma key_neq [simp]:
  "databaseKeyForMilestoneIndex 8 \<noteq> databaseKeyForMilestoneIndex 7"
  "databaseKeyForMilestoneIndex 9 \<noteq> databaseKeyForMilestoneIndex 7"
  "databaseKeyForMilestoneIndex 9 \<noteq> databaseKeyForMilestoneIndex 8"
  by (simp_all add: databaseKeyForMilestoneIndex_def PutUint32_def le32_def)





section \<open>The legacy backfill\<close>

lemma legacy_SetAdditionalTxInfo_bits:
  "HasBit (legacy_metadata (legacy_SetAdditionalTxInfo m t b u isHead isTail isValue)) TransactionMetadataIsHead = isHead"
  "HasBit (legacy_metadata (legacy_SetAdditionalTxInfo m t b u isHead isTail isValue)) TransactionMetadataIsTail = isTail"
  "HasBit (legacy_metadata (legacy_SetAdditionalTxInfo m t b u isHead isTail isValue)) TransactionMetadataIsValue = isValue"
  by (simp_all add: legacy_SetAdditionalTxInfo_def HasBit_ModifyBit_same HasBit_ModifyBit_other
        TransactionMetadataIsHead_def TransactionMetadataIsTail_def TransactionMetadataIsValue_def)

text \<open>
  C10. In the legacy accessor, for a stored record that the factory decodes to \<open>m\<close>:
  with a non-empty trunk hash \<open>m\<close> is returned as it is, whatever its branch hash (the
  stored record may have an empty one); with an empty trunk hash the trunk, branch and bundle hashes
  and the head, tail and value bits are taken from the transaction payload, and the
  accessor panics when that payload is missing.
\<close>

theorem legacy_backfill:
  assumes "get txh = Inr data" and "factory txh data = Inr m"
  shows "(legacy_trunkHash m \<noteq> [] \<longrightarrow>
            legacy_TxMetadataOrNil get factory txOrNil txh = Inr (Some m))
       \<and> (legacy_trunkHash m = [] \<and> txOrNil (legacy_txHash m) = Inr None \<longrightarrow>
            legacy_TxMetadataOrNil get factory txOrNil txh = Inl PanicTxNotFound)
       \<and> (\<forall>tx. legacy_trunkHash m = [] \<and> txOrNil (legacy_txHash m) = Inr (Some tx) \<longrightarrow>
            (let m' = legacy_SetAdditionalTxInfo m (tx_TrunkHash tx) (tx_BranchHash tx) (tx_BundleHash tx)
                        (tx_IsHead tx) (tx_IsTail tx) (tx_IsValue tx)
             in legacy_TxMetadataOrNil get factory txOrNil txh = Inr (Some m')
               \<and> legacy_trunkHash m' = tx_TrunkHash tx
               \<and> legacy_branchHash m' = tx_BranchHash tx
               \<and> legacy_bundleHash m' = tx_BundleHash tx
               \<and> HasBit (legacy_metadata m') TransactionMetadataIsHead = tx_IsHead tx
               \<and> HasBit (legacy_metadata m') TransactionMetadataIsTail = tx_IsTail tx
               \<and> HasBit (legacy_metadata m') TransactionMetadataIsValue = tx_IsValue tx))"
  using assms
  by (simp add: legacy_TxMetadataOrNil_def legacy_addAdditionalTxInfoToMetadata_def Let_def
        legacy_SetAdditionalTxInfo_bits)
     (simp add: legacy_SetAdditionalTxInfo_def)

lemma ex_legacy_factory_short:
  "ex_legacy_factory ex_T2 [3, 0, 0, 0, 0, 5, 0, 0, 0] =
     Inr \<lparr>legacy_txHash = ex_T2, legacy_metadata = 3, legacy_confirmationIndex = 5,
          legacy_trunkHash = [], legacy_branchHash = [], legacy_bundleHash = []\<rparr>"
  by (simp add: ex_legacy_factory_def legacy_Unmarshal_def legacy_NewTransactionMetadata_def
        slice_def Uint32_def HashSize_def)

lemma ex_trunk_nonempty [simp]: "ex_trunk \<noteq> []"
  by (simp add: ex_trunk_def)

theorem legacy_backfill_witness:
  "legacy_TxMetadataOrNil (\<lambda>k. Inr []) (\<lambda>k d. Inr ex_legacy_stored) (\<lambda>h. Inr None) ex_T1
     = Inr (Some ex_legacy_stored)
   \<and> legacy_branchHash ex_legacy_stored = []
   \<and> legacy_TxMetadataOrNil (\<lambda>k. Inr [3, 0, 0, 0, 0, 5, 0, 0, 0]) ex_legacy_factory (\<lambda>h. Inr None) ex_T2
     = Inl PanicTxNotFound
   \<and> legacy_TxMetadataOrNil (\<lambda>k. Inr [3, 0, 0, 0, 0, 5, 0, 0, 0]) ex_legacy_factory (db_TransactionOrNil ex_db) ex_T2
     = Inr (Some \<lparr>legacy_txHash = ex_T2, legacy_metadata = 27, legacy_confirmationIndex = 5,
          legacy_trunkHash = ex_trunk, legacy_branchHash = ex_branch, legacy_bundleHash = ex_B\<rparr>)"
  using legacy_backfill [of "\<lambda>k. Inr []" ex_T1 "[]" "\<lambda>k d. Inr ex_legacy_stored" ex_legacy_stored "\<lambda>h. Inr None"]
        legacy_backfill [of "\<lambda>k. Inr [3, 0, 0, 0, 0, 5, 0, 0, 0]" ex_T2 "[3, 0, 0, 0, 0, 5, 0, 0, 0]"
           ex_legacy_factory ex_legacy_short "\<lambda>h. Inr None"]
        legacy_backfill [of "\<lambda>k. Inr [3, 0, 0, 0, 0, 5, 0, 0, 0]" ex_T2 "[3, 0, 0, 0, 0, 5, 0, 0, 0]"
           ex_legacy_factory ex_legacy_short "db_TransactionOrNil ex_db"]
        ex_legacy_factory_short
  by (simp add: ex_legacy_stored_def ex_legacy_short_def ex_db_def ex_tx2_def legacy_SetAdditionalTxInfo_def
        ModifyBit_def SetBit_def ClearBit_def
        TransactionMetadataIsHead_def TransactionMetadataIsTail_def TransactionMetadataIsValue_def)

section \<open>The capped scan\<close>


lemma iterate_bth_uncapped:
  "\<forall>key \<in> set ks. 99 \<le> length key \<Longrightarrow>
   iterate (bundleTransactionHashesConsumer []) (i, acc) ks =
     Inr (i + length ks, acc @ map (\<lambda>key. slice key 50 99) ks)"
  by (induction ks arbitrary: i acc) (simp_all add: bundleTransactionHashesConsumer_def)


lemma ex_hasPrefix [simp]: "hasPrefix ex_B (ex_B @ rest)"
  by (simp add: hasPrefix_def)



section \<open>Invariants of the migration pass\<close>

lemma tailConsumer_err_mono:
  "tailConsumer env n s k = Inr (cont, s') \<Longrightarrow> scan_innerErr s' = None \<Longrightarrow> scan_innerErr s = None"
  by (auto simp add: tailConsumer_def Let_def split: if_splits sum.splits)

lemma tailConsumer_noAbort:
  "tailConsumer env n s k = Inr (cont, s') \<Longrightarrow> scan_innerErr s' = None \<Longrightarrow>
   tailConsumer (noAbort env) n' s k = Inr (cont, s')"
  by (auto simp add: tailConsumer_def noAbort_def getBundleMilestoneIndex_def Let_def split: if_splits sum.splits)

lemma iterate_tail_err_mono:
  "iterate (tailConsumer env n) s ks = Inr s' \<Longrightarrow> scan_innerErr s' = None \<Longrightarrow> scan_innerErr s = None"
proof (induction ks arbitrary: s)
  case Nil
  then show ?case by simp
next
  case (Cons k ks)
  then show ?case
    by (auto split: sum.splits if_splits dest: tailConsumer_err_mono)
qed

lemma iterate_tail_noAbort:
  "iterate (tailConsumer env n) s ks = Inr s' \<Longrightarrow> scan_innerErr s' = None \<Longrightarrow>
   iterate (tailConsumer (noAbort env) n') s ks = Inr s'"
proof (induction ks arbitrary: s)
  case Nil
  then show ?case by simp
next
  case (Cons k ks)
  from Cons.prems(1) obtain cont s1 where step: "tailConsumer env n s k = Inr (cont, s1)"
    by (auto split: sum.splits)
  show ?case
  proof (cases cont)
    case True
    with Cons.prems step have rest: "iterate (tailConsumer env n) s1 ks = Inr s'"
      by simp
    from iterate_tail_err_mono [OF rest Cons.prems(2)] have "scan_innerErr s1 = None" .
    from tailConsumer_noAbort [OF step this] Cons.IH [OF rest Cons.prems(2)] True
    show ?thesis by simp
  next
    case False
    with Cons.prems step have "s1 = s'" by simp
    with tailConsumer_noAbort [OF step] Cons.prems(2) False
    show ?thesis by simp
  qed
qed

lemma scanTails_resolved:
  assumes "scanTails env n bh \<lparr>bundleTransactionsCounter = 0, scan_milestoneIndex = 0, scan_innerErr = e\<rparr> = Inr s"
    and "scan_innerErr s = None"
  shows "e = None \<and> scan_milestoneIndex s = resolvedIndex env bh"
proof -
  let ?s0 = "\<lparr>bundleTransactionsCounter = 0, scan_milestoneIndex = 0, scan_innerErr = e\<rparr>"
  let ?ks = "filter (hasPrefix (databaseKeyPrefixForBundleHash bh @ [BundleTxIsTail])) (bundleTransactionsStore env)"
  have it: "iterate (tailConsumer env n) ?s0 ?ks = Inr s"
    using assms(1) by (simp add: scanTails_def IterateKeys_def)
  from iterate_tail_err_mono [OF it assms(2)] have e: "e = None" by simp
  from iterate_tail_noAbort [OF it assms(2), of 0]
  have "scanTails (noAbort env) 0 bh ?s0 = Inr s"
    by (simp add: scanTails_def IterateKeys_def noAbort_def)
  with e show ?thesis
    by (simp add: resolvedIndex_def)
qed

lemma cacheSound_lru_Add:
  assumes "cacheSound env c" and "v = resolvedIndex env k"
  shows "cacheSound env (lru_Add c k v)"
proof -
  let ?c' = "(k, v) # filter (\<lambda>e. fst e \<noteq> k) c"
  have "set (lru_Add c k v) \<subseteq> set ?c'"
    by (auto simp add: lru_Add_def Let_def dest: in_set_butlastD)
  moreover have "cacheSound env ?c'"
    using assms by (auto simp add: cacheSound_def)
  ultimately show ?thesis
    unfolding cacheSound_def by blast
qed

lemma cacheSound_lru_Get:
  assumes "cacheSound env c" and "lru_Get c k = (r, c')"
  shows "cacheSound env c' \<and> (\<forall>v. r = Some v \<longrightarrow> v = resolvedIndex env k) \<and> (r = None \<longrightarrow> c' = c)"
proof (cases "map_of c k")
  case None
  with assms show ?thesis
    by (simp add: lru_Get_def)
next
  case (Some v)
  then have "(k, v) \<in> set c"
    by (rule map_of_SomeD)
  with assms(1) have v: "v = resolvedIndex env k"
    by (simp add: cacheSound_def)
  from Some assms(2) have r: "r = Some v" and c': "c' = (k, v) # filter (\<lambda>e. fst e \<noteq> k) c"
    by (simp_all add: lru_Get_def)
  have "cacheSound env c'"
    using assms(1) v unfolding c' cacheSound_def by auto
  with r v show ?thesis by simp
qed

lemma resolve_ok:
  assumes r: "resolveMilestoneIndex env st tx = Inr (idx, st2)"
    and e: "innerErr st2 = None"
    and c: "cacheSound env (milestoneCache st)"
    and l: "length (tx_BundleHash tx) = 49"
  shows "idx = resolvedIndex env (tx_BundleHash tx) \<and> cacheSound env (milestoneCache st2)
       \<and> innerErr st = None \<and> metadataStore st2 = metadataStore st
       \<and> transactionsCounter st2 = transactionsCounter st"
proof -
  obtain g c' where g: "lru_Get (milestoneCache st) (tx_BundleHash tx) = (g, c')"
    by (cases "lru_Get (milestoneCache st) (tx_BundleHash tx)")
  note gs = cacheSound_lru_Get [OF c g]
  show ?thesis
  proof (cases g)
    case (Some v)
    with r g l gs e show ?thesis
      by (auto simp add: resolveMilestoneIndex_def Let_def)
  next
    case None
    with r g l obtain s where
      sc: "scanTails env (transactionsCounter st) (tx_BundleHash tx)
             \<lparr>bundleTransactionsCounter = 0, scan_milestoneIndex = 0, scan_innerErr = innerErr st\<rparr> = Inr s"
      and idx: "idx = scan_milestoneIndex s"
      and st2: "st2 = st\<lparr>milestoneCache := lru_Add c' (tx_BundleHash tx) (scan_milestoneIndex s),
                         innerErr := scan_innerErr s\<rparr>"
      by (auto simp add: resolveMilestoneIndex_def Let_def split: sum.splits)
    from e st2 have "scan_innerErr s = None" by simp
    from scanTails_resolved [OF sc this] have "innerErr st = None" and
      ri: "scan_milestoneIndex s = resolvedIndex env (tx_BundleHash tx)" by simp_all
    moreover have "cacheSound env (milestoneCache st2)"
      using gs ri st2 by (simp add: cacheSound_lru_Add)
    ultimately show ?thesis
      using idx st2 by simp
  qed
qed


lemma metadataConsumer_ok:
  assumes step: "metadataConsumer env st (key, data) = Inr (cont, st')"
    and e: "innerErr st' = None"
    and c: "cacheSound env (milestoneCache st)"
    and wf: "hashesWellFormed env"
  shows "cont \<and> innerErr st = None \<and> cacheSound env (milestoneCache st')
       \<and> transactionsCounter st' = transactionsCounter st + 1
       \<and> (\<exists>r. passRecord env key data = Some r \<and> metadataStore st' = kv_Set (metadataStore st) key r)"
proof -
  let ?st1 = "st\<lparr>transactionsCounter := transactionsCounter st + 1\<rparr>"
  let ?h = "take HashSize key"
  from step e obtain txMeta txData tx idx st2 where
    lf: "legacyFields ?h data = Inr txMeta"
    and tg: "txStore env ?h = Inr txData"
    and tf: "transactionFactory env ?h txData = Inr tx"
    and rs: "resolveMilestoneIndex env ?st1 tx = Inr (idx, st2)"
    and se: "metadataSetErr env key = None"
    and cont: "cont"
    and st': "st' = st2\<lparr>metadataStore := kv_Set (metadataStore st2) key (Marshal (migratedMetadata txMeta tx idx))\<rparr>"
    by (auto simp add: metadataConsumer_def Let_def split: if_splits sum.splits option.splits prod.splits)
  from wf tf have len: "length (tx_BundleHash tx) = 49"
    by (auto simp add: hashesWellFormed_def HashSize_def)
  from e st' have e2: "innerErr st2 = None" by simp
  from c have c1: "cacheSound env (milestoneCache ?st1)" by simp
  from resolve_ok [OF rs e2 c1 len]
  have idx: "idx = resolvedIndex env (tx_BundleHash tx)"
    and c2: "cacheSound env (milestoneCache st2)"
    and e0: "innerErr st = None"
    and ms: "metadataStore st2 = metadataStore st"
    and tc: "transactionsCounter st2 = transactionsCounter st + 1"
    by simp_all
  have "passRecord env key data = Some (Marshal (migratedMetadata txMeta tx idx))"
    using lf tg tf idx by (simp add: passRecord_def)
  with cont e0 c2 tc ms st' show ?thesis
    by simp
qed

lemma map_of_kv_Set: "map_of (kv_Set md k v) = (map_of md)(k \<mapsto> v)"
  by (induction md) (auto simp add: fun_eq_iff)

lemma keys_kv_Set: "k \<in> fst ` set md \<Longrightarrow> map fst (kv_Set md k v) = map fst md"
proof (induction md)
  case Nil
  then show ?case by simp
next
  case (Cons e md)
  show ?case
  proof (cases "fst e = k")
    case True
    then show ?thesis by (cases e) simp
  next
    case False
    with Cons.prems have "k \<in> fst ` set md" by auto
    with Cons.IH False show ?thesis by (cases e) simp
  qed
qed

lemma resolve_err_mono:
  assumes "resolveMilestoneIndex env st tx = Inr (idx, st2)" and "innerErr st2 = None"
  shows "innerErr st = None"
proof (cases "map_of (milestoneCache st) (take 49 (tx_BundleHash tx))")
  case (Some v)
  with assms show ?thesis
    by (auto simp add: resolveMilestoneIndex_def lru_Get_def Let_def split: if_splits)
next
  case None
  with assms obtain s where
    "scanTails env (transactionsCounter st) (tx_BundleHash tx)
       \<lparr>bundleTransactionsCounter = 0, scan_milestoneIndex = 0, scan_innerErr = innerErr st\<rparr> = Inr s"
    and "scan_innerErr s = None"
    by (auto simp add: resolveMilestoneIndex_def lru_Get_def Let_def split: if_splits sum.splits)
  then show ?thesis
    using iterate_tail_err_mono by (fastforce simp add: scanTails_def IterateKeys_def)
qed

lemma metadataConsumer_err_mono:
  assumes "metadataConsumer env st kd = Inr (cont, st')" and "innerErr st' = None"
  shows "innerErr st = None"
proof -
  from assms obtain tx idx st2 where
    "resolveMilestoneIndex env (st\<lparr>transactionsCounter := transactionsCounter st + 1\<rparr>) tx = Inr (idx, st2)"
    and "innerErr st2 = None"
    by (auto simp add: metadataConsumer_def Let_def split: if_splits sum.splits option.splits prod.splits)
  from resolve_err_mono [OF this] show ?thesis by simp
qed

lemma iterate_metadata_err_mono:
  "iterate (metadataConsumer env) st es = Inr st' \<Longrightarrow> innerErr st' = None \<Longrightarrow> innerErr st = None"
proof (induction es arbitrary: st)
  case Nil
  then show ?case by simp
next
  case (Cons x es)
  then show ?case
    by (auto split: sum.splits if_splits dest: metadataConsumer_err_mono)
qed

lemma iterate_pass:
  assumes "iterate (metadataConsumer env) st es = Inr st'"
    and "innerErr st' = None"
    and "cacheSound env (milestoneCache st)"
    and "hashesWellFormed env"
    and "distinct (map fst es)"
  shows "(\<forall>k d. (k, d) \<in> set es \<longrightarrow> (\<exists>r. passRecord env k d = Some r \<and> map_of (metadataStore st') k = Some r))
       \<and> (\<forall>k. k \<notin> fst ` set es \<longrightarrow> map_of (metadataStore st') k = map_of (metadataStore st) k)
       \<and> (fst ` set es \<subseteq> fst ` set (metadataStore st) \<longrightarrow> map fst (metadataStore st') = map fst (metadataStore st))"
  using assms
proof (induction es arbitrary: st)
  case Nil
  then show ?case by simp
next
  case (Cons x es)
  obtain key data where x: "x = (key, data)" by (cases x)
  from Cons.prems(1) obtain cont st1 where step: "metadataConsumer env st (key, data) = Inr (cont, st1)"
    by (auto simp add: x split: sum.splits)
  show ?case
  proof (cases cont)
    case False
    with Cons.prems(1) step x have "st1 = st'" by simp
    with metadataConsumer_ok [OF step _ Cons.prems(3,4)] Cons.prems(2) False
    show ?thesis by simp
  next
    case True
    with Cons.prems(1) step x have rest: "iterate (metadataConsumer env) st1 es = Inr st'"
      by simp
    have d: "distinct (map fst es)" and kn: "key \<notin> fst ` set es"
      using Cons.prems(5) x by auto
    have e1: "innerErr st1 = None"
      using iterate_metadata_err_mono [OF rest Cons.prems(2)] .
    from metadataConsumer_ok [OF step e1 Cons.prems(3,4)] obtain r where
      c1: "cacheSound env (milestoneCache st1)"
      and r: "passRecord env key data = Some r"
      and ms: "metadataStore st1 = kv_Set (metadataStore st) key r"
      by auto
    note IH = Cons.IH [OF rest Cons.prems(2) c1 Cons.prems(4) d]
    have a: "\<forall>k d. (k, d) \<in> set (x # es) \<longrightarrow>
               (\<exists>r. passRecord env k d = Some r \<and> map_of (metadataStore st') k = Some r)"
    proof (intro allI impI)
      fix k d assume "(k, d) \<in> set (x # es)"
      then consider "k = key" "d = data" | "(k, d) \<in> set es"
        using x by auto
      then show "\<exists>r. passRecord env k d = Some r \<and> map_of (metadataStore st') k = Some r"
      proof cases
        case 1
        from IH kn have "map_of (metadataStore st') key = map_of (metadataStore st1) key"
          by blast
        with 1 r ms show ?thesis
          by (simp add: map_of_kv_Set)
      next
        case 2
        with IH show ?thesis by blast
      qed
    qed
    have b: "\<forall>k. k \<notin> fst ` set (x # es) \<longrightarrow> map_of (metadataStore st') k = map_of (metadataStore st) k"
    proof (intro allI impI)
      fix k assume k: "k \<notin> fst ` set (x # es)"
      then have "k \<notin> fst ` set es" and "k \<noteq> key"
        using x by auto
      with IH ms show "map_of (metadataStore st') k = map_of (metadataStore st) k"
        by (simp add: map_of_kv_Set)
    qed
    have c: "fst ` set (x # es) \<subseteq> fst ` set (metadataStore st) \<longrightarrow>
               map fst (metadataStore st') = map fst (metadataStore st)"
    proof
      assume sub: "fst ` set (x # es) \<subseteq> fst ` set (metadataStore st)"
      then have kin: "key \<in> fst ` set (metadataStore st)"
        using x by simp
      then have keys: "map fst (metadataStore st1) = map fst (metadataStore st)"
        using ms by (simp add: keys_kv_Set)
      then have "fst ` set (metadataStore st1) = fst ` set (metadataStore st)"
        by (metis list.set_map)
      with sub have "fst ` set es \<subseteq> fst ` set (metadataStore st1)"
        by simp
      with IH keys show "map fst (metadataStore st') = map fst (metadataStore st)"
        by simp
    qed
    from a b c show ?thesis by blast
  qed
qed

section \<open>The migrated record\<close>


lemma hd_Marshal: "hd (Marshal m) = metadata m"
  by (simp add: Marshal_eq)

lemma drop_Marshal_152: "drop 152 (Marshal m) = le32 (milestoneIndex m)"
  using Marshal_slices(5) [of m] length_Marshal [of m] by (simp add: slice_def)


lemma Unmarshal_Marshal:
  "Unmarshal m0 (Marshal m) =
     Inr (m0\<lparr>metadata := metadata m, confirmationIndex := confirmationIndex m,
            trunkHash := padHash (trunkHash m), branchHash := padHash (branchHash m),
            bundleHash := padHash (bundleHash m), milestoneIndex := milestoneIndex m\<rparr>)"
proof -
  have ne: "Marshal m \<noteq> []"
    using length_Marshal [of m] by auto
  have c: "Uint32 (slice (Marshal m) 1 5) = Some (confirmationIndex m)"
    unfolding Marshal_slices using Uint32_le32 [of "confirmationIndex m" "[]"] by simp
  have i: "Uint32 (drop 152 (Marshal m)) = Some (milestoneIndex m)"
    using Uint32_le32 [of "milestoneIndex m" "[]"] by (simp add: drop_Marshal_152)
  show ?thesis
    using ne c i
    by (simp add: Unmarshal_def Let_def HashSize_def IndexByteSize_def length_Marshal Marshal_slices(2-5) hd_Marshal)
qed


lemma ex_B_prefix [simp]:
  "hasPrefix (ex_B @ [x]) (ex_B @ y # rest) = (x = y)"
  by (auto simp add: hasPrefix_def)

lemma ex_slice [simp]: "length h = 49 \<Longrightarrow> slice (ex_B @ x # h) 50 99 = h"
  by (simp add: slice_def)

lemma ex_env_simps [simp]:
  "txStore ex_env ex_T1 = Inr [1]"
  "txStore ex_env ex_T2 = Inr [2]"
  "bundleStore ex_env ex_T1 = Inr [1]"
  "bundleStore ex_env ex_T2 = Inr [2]"
  "bundleTransactionsStore ex_env = ex_bundleTransactions"
  "transactionFactory ex_env h [1] = Inr ex_tx1"
  "transactionFactory ex_env h [2] = Inr ex_tx2"
  "bundleFactory ex_env k [1] = Inr \<lparr>bundle_hash = ex_B, bundle_tailTx = ex_T1, bundle_IsMilestone = False\<rparr>"
  "bundleFactory ex_env k [2] = Inr \<lparr>bundle_hash = ex_B, bundle_tailTx = ex_T2, bundle_IsMilestone = True\<rparr>"
  "databaseKeyForBundle ex_env h = h"
  "TrytesToInt ex_env ''G'' = 7"
  "metadataSetErr ex_env k = None"
  "ctxDoneOuter ex_env n = False"
  "ctxDoneInner ex_env n j = False"
  by (simp_all add: ex_env_def)

lemma ex_T_nonempty [simp]: "ex_T1 \<noteq> []" "ex_T2 \<noteq> []"
  by (simp_all add: ex_T1_def ex_T2_def)

lemma ex_scan:
  "scanTails ex_env n ex_B \<lparr>bundleTransactionsCounter = 0, scan_milestoneIndex = 0, scan_innerErr = e\<rparr>
     = Inr \<lparr>bundleTransactionsCounter = 2, scan_milestoneIndex = 7, scan_innerErr = e\<rparr>"
  by (simp add: scanTails_def IterateKeys_def ex_bundleTransactions_def
        databaseKeyPrefixForBundleHash_def BundleTxIsTail_def tailConsumer_def
        getBundleMilestoneIndex_def ex_tx2_def)

lemma ex_resolve_miss:
  "map_of (milestoneCache st) ex_B = None \<Longrightarrow>
   resolveMilestoneIndex ex_env st ex_tx1 = Inr (7, st\<lparr>milestoneCache := lru_Add (milestoneCache st) ex_B 7\<rparr>)"
  by (simp add: resolveMilestoneIndex_def ex_tx1_def lru_Get_def ex_scan)


lemma Uint32_take4: "Uint32 (take 4 bs) = Uint32 bs"
  by (auto simp add: Uint32_def split: list.splits)

lemma migratedMetadata_bits:
  "HasBit (metadata (migratedMetadata tm tx idx)) TransactionMetadataIsHead = tx_IsHead tx"
  "HasBit (metadata (migratedMetadata tm tx idx)) TransactionMetadataIsTail = tx_IsTail tx"
  "HasBit (metadata (migratedMetadata tm tx idx)) TransactionMetadataIsValue = tx_IsValue tx"
  "HasBit (metadata (migratedMetadata tm tx idx)) TransactionMetadataIsMilestone = (idx \<noteq> 0)"
  "HasBit (metadata (migratedMetadata tm tx idx)) TransactionMetadataSolid = HasBit (metadata tm) TransactionMetadataSolid"
  "HasBit (metadata (migratedMetadata tm tx idx)) TransactionMetadataConfirmed = HasBit (metadata tm) TransactionMetadataConfirmed"
  "HasBit (metadata (migratedMetadata tm tx idx)) TransactionMetadataConflicting = HasBit (metadata tm) TransactionMetadataConflicting"
  by (simp_all add: migratedMetadata_def HasBit_ModifyBit_same HasBit_ModifyBit_other
        TransactionMetadataIsHead_def TransactionMetadataIsTail_def TransactionMetadataIsValue_def
        TransactionMetadataIsMilestone_def TransactionMetadataSolid_def TransactionMetadataConfirmed_def
        TransactionMetadataConflicting_def)

lemma migratedMetadata_fields:
  "confirmationIndex (migratedMetadata tm tx idx) = confirmationIndex tm"
  "trunkHash (migratedMetadata tm tx idx) = tx_TrunkHash tx"
  "branchHash (migratedMetadata tm tx idx) = tx_BranchHash tx"
  "bundleHash (migratedMetadata tm tx idx) = tx_BundleHash tx"
  "milestoneIndex (migratedMetadata tm tx idx) = idx"
  "txHash (migratedMetadata tm tx idx) = txHash tm"
  by (simp_all add: migratedMetadata_def)

lemma Uint32_Some_length: "Uint32 bs = Some c \<Longrightarrow> 4 \<le> length bs"
  by (auto simp add: Uint32_def split: list.splits)

lemma legacyFields_legacy_Unmarshal:
  assumes "legacyFields h data = Inr tm"
  shows "\<exists>lm. legacy_Unmarshal (legacy_NewTransactionMetadata h) data = Inr lm
           \<and> legacy_metadata lm = metadata tm \<and> legacy_confirmationIndex lm = confirmationIndex tm"
proof -
  from assms obtain c where ne: "data \<noteq> []" and u: "Uint32 (drop 5 data) = Some c"
    and tm: "tm = (NewTransactionMetadata h)\<lparr>metadata := hd data, confirmationIndex := c\<rparr>"
    by (auto simp add: legacyFields_def IndexByteSize_def split: if_splits option.splits)
  from Uint32_Some_length [OF u] have len: "9 \<le> length data"
    by simp
  have "Uint32 (slice data 5 9) = Some c"
    using u Uint32_take4 [of "drop 5 data"] by (simp add: slice_def)
  with ne len tm show ?thesis
    by (auto simp add: legacy_Unmarshal_def Let_def)
qed


lemma storedMetadata_kv_Set:
  "storedMetadata (kv_Set md key (Marshal m)) key =
     Some ((NewTransactionMetadata (take HashSize key))
        \<lparr>metadata := metadata m, confirmationIndex := confirmationIndex m,
         trunkHash := padHash (trunkHash m), branchHash := padHash (branchHash m),
         bundleHash := padHash (bundleHash m), milestoneIndex := milestoneIndex m\<rparr>)"
  by (simp add: storedMetadata_def map_of_kv_Set Unmarshal_Marshal)

text \<open>
  C3. The consumer of the metadata iteration returns \<open>true\<close> exactly when it has written.
  For a record it has written, with \<open>tx\<close> the parsed payload of the key and \<open>idx\<close> the
  milestone index it resolved for the bundle of \<open>tx\<close>, the record now stored at the key
  decodes to a metadata value whose head, tail and value bits are the predicates of the
  payload, whose milestone bit is set if and only if \<open>idx\<close> is not zero, whose confirmed
  bit and confirmation index are those of the stored record of the old layout, whose
  trunk, branch and bundle hashes are those of the payload, and whose milestone index is
  \<open>idx\<close>; so its milestone index is not zero exactly when its milestone bit is set.
\<close>

theorem migration_record_fields:
  assumes "metadataConsumer env st (key, data) = Inr (True, st')"
    and "txStore env (take HashSize key) = Inr txData"
    and "transactionFactory env (take HashSize key) txData = Inr tx"
    and "resolveMilestoneIndex env (st\<lparr>transactionsCounter := transactionsCounter st + 1\<rparr>) tx = Inr (idx, st2)"
  shows "\<exists>m lm. storedMetadata (metadataStore st') key = Some m
        \<and> legacy_Unmarshal (legacy_NewTransactionMetadata (take HashSize key)) data = Inr lm
        \<and> HasBit (metadata m) TransactionMetadataIsHead = tx_IsHead tx
        \<and> HasBit (metadata m) TransactionMetadataIsTail = tx_IsTail tx
        \<and> HasBit (metadata m) TransactionMetadataIsValue = tx_IsValue tx
        \<and> HasBit (metadata m) TransactionMetadataIsMilestone = (idx \<noteq> 0)
        \<and> HasBit (metadata m) TransactionMetadataConfirmed = HasBit (legacy_metadata lm) TransactionMetadataConfirmed
        \<and> confirmationIndex m = legacy_confirmationIndex lm
        \<and> trunkHash m = padHash (tx_TrunkHash tx)
        \<and> branchHash m = padHash (tx_BranchHash tx)
        \<and> bundleHash m = padHash (tx_BundleHash tx)
        \<and> (length (tx_TrunkHash tx) = HashSize \<longrightarrow> trunkHash m = tx_TrunkHash tx)
        \<and> (length (tx_BranchHash tx) = HashSize \<longrightarrow> branchHash m = tx_BranchHash tx)
        \<and> (length (tx_BundleHash tx) = HashSize \<longrightarrow> bundleHash m = tx_BundleHash tx)
        \<and> milestoneIndex m = idx
        \<and> (milestoneIndex m \<noteq> 0) = HasBit (metadata m) TransactionMetadataIsMilestone"
proof -
  from assms obtain tm where
    lf: "legacyFields (take HashSize key) data = Inr tm"
    and st': "st' = st2\<lparr>metadataStore := kv_Set (metadataStore st2) key (Marshal (migratedMetadata tm tx idx))\<rparr>"
    by (auto simp add: metadataConsumer_def Let_def split: if_splits sum.splits option.splits prod.splits)
  from legacyFields_legacy_Unmarshal [OF lf] obtain lm where
    lm: "legacy_Unmarshal (legacy_NewTransactionMetadata (take HashSize key)) data = Inr lm"
    and lmm: "legacy_metadata lm = metadata tm"
    and lmc: "legacy_confirmationIndex lm = confirmationIndex tm"
    by blast
  let ?w = "migratedMetadata tm tx idx"
  let ?m = "(NewTransactionMetadata (take HashSize key))
        \<lparr>metadata := metadata ?w, confirmationIndex := confirmationIndex ?w,
         trunkHash := padHash (trunkHash ?w), branchHash := padHash (branchHash ?w),
         bundleHash := padHash (bundleHash ?w), milestoneIndex := milestoneIndex ?w\<rparr>"
  have sm: "storedMetadata (metadataStore st') key = Some ?m"
    unfolding st' by (simp add: storedMetadata_kv_Set)
  have "HasBit (metadata ?m) TransactionMetadataIsHead = tx_IsHead tx"
    "HasBit (metadata ?m) TransactionMetadataIsTail = tx_IsTail tx"
    "HasBit (metadata ?m) TransactionMetadataIsValue = tx_IsValue tx"
    "HasBit (metadata ?m) TransactionMetadataIsMilestone = (idx \<noteq> 0)"
    "HasBit (metadata ?m) TransactionMetadataConfirmed = HasBit (legacy_metadata lm) TransactionMetadataConfirmed"
    by (simp_all add: migratedMetadata_bits lmm)
  moreover have "confirmationIndex ?m = legacy_confirmationIndex lm"
    "trunkHash ?m = padHash (tx_TrunkHash tx)"
    "branchHash ?m = padHash (tx_BranchHash tx)"
    "bundleHash ?m = padHash (tx_BundleHash tx)"
    "milestoneIndex ?m = idx"
    by (simp_all add: migratedMetadata_fields lmc)
  ultimately show ?thesis
    using sm lm by (simp add: padHash_id HashSize_def)
qed

lemma ex_step1:
  "metadataConsumer ex_env (migrationStart ex_metadata) (ex_T1, [3, 0, 0, 0, 0, 5, 0, 0, 0])
     = Inr (True, \<lparr>metadataStore = kv_Set ex_metadata ex_T1
                      (Marshal (migratedMetadata
                         ((NewTransactionMetadata ex_T1)\<lparr>metadata := 3, confirmationIndex := 5\<rparr>) ex_tx1 7)),
                   milestoneCache = [(ex_B, 7)], innerErr = None, transactionsCounter = 1\<rparr>)"
  by (simp add: metadataConsumer_def migrationStart_def ex_resolve_miss legacyFields_def Let_def
        HashSize_def IndexByteSize_def Uint32_def lru_Add_def milestoneCacheSize_def)


theorem migration_record_fields_witness:
  "metadataConsumer ex_env (migrationStart ex_metadata) (ex_T1, [3, 0, 0, 0, 0, 5, 0, 0, 0])
     = Inr (True, \<lparr>metadataStore = kv_Set ex_metadata ex_T1
                      (Marshal (migratedMetadata
                         ((NewTransactionMetadata ex_T1)\<lparr>metadata := 3, confirmationIndex := 5\<rparr>) ex_tx1 7)),
                   milestoneCache = [(ex_B, 7)], innerErr = None, transactionsCounter = 1\<rparr>)
   \<and> storedMetadata (kv_Set ex_metadata ex_T1
         (Marshal (migratedMetadata
            ((NewTransactionMetadata ex_T1)\<lparr>metadata := 3, confirmationIndex := 5\<rparr>) ex_tx1 7))) ex_T1
       = Some \<lparr>txHash = ex_T1, metadata = 91, confirmationIndex = 5, trunkHash = ex_trunk,
               branchHash = ex_branch, bundleHash = ex_B, milestoneIndex = 7\<rparr>"
proof -
  let ?st = "migrationStart ex_metadata"
  have r: "resolveMilestoneIndex ex_env (?st\<lparr>transactionsCounter := transactionsCounter ?st + 1\<rparr>) ex_tx1
             = Inr (7, ?st\<lparr>transactionsCounter := transactionsCounter ?st + 1,
                            milestoneCache := [(ex_B, 7)]\<rparr>)"
    by (simp add: ex_resolve_miss migrationStart_def lru_Add_def milestoneCacheSize_def)
  have t: "txStore ex_env (take HashSize ex_T1) = Inr [1]"
    "transactionFactory ex_env (take HashSize ex_T1) [1] = Inr ex_tx1"
    by (simp_all add: HashSize_def)
  from migration_record_fields [OF ex_step1 t r]
  show ?thesis
    using ex_step1
    by (simp add: storedMetadata_kv_Set migratedMetadata_def NewTransactionMetadata_def padHash_id
          HashSize_def ex_tx1_def ModifyBit_def SetBit_def ClearBit_def
          TransactionMetadataIsHead_def TransactionMetadataIsTail_def TransactionMetadataIsValue_def
          TransactionMetadataIsMilestone_def)
qed

section \<open>The scan up to the first milestone tail\<close>

lemma tailConsumer_skip:
  assumes "notMilestoneTail env k" and "\<not> ctxDoneInner env n (bundleTransactionsCounter s + 1)"
  shows "tailConsumer env n s k = Inr (True, s\<lparr>bundleTransactionsCounter := bundleTransactionsCounter s + 1\<rparr>)"
  using assms
  by (auto simp add: tailConsumer_def notMilestoneTail_def Let_def split: sum.splits)

lemma iterate_tail_skip:
  assumes "\<forall>k \<in> set pre. notMilestoneTail env k"
    and "\<forall>j. j \<le> bundleTransactionsCounter s + length pre \<longrightarrow> \<not> ctxDoneInner env n j"
  shows "iterate (tailConsumer env n) s (pre @ rest)
           = iterate (tailConsumer env n) (s\<lparr>bundleTransactionsCounter := bundleTransactionsCounter s + length pre\<rparr>) rest"
  using assms
proof (induction pre arbitrary: s)
  case Nil
  then show ?case by simp
next
  case (Cons k pre)
  let ?s1 = "s\<lparr>bundleTransactionsCounter := bundleTransactionsCounter s + 1\<rparr>"
  have k: "tailConsumer env n s k = Inr (True, ?s1)"
    using Cons.prems by (intro tailConsumer_skip) simp_all
  have "iterate (tailConsumer env n) ?s1 (pre @ rest)
          = iterate (tailConsumer env n) (?s1\<lparr>bundleTransactionsCounter := bundleTransactionsCounter ?s1 + length pre\<rparr>) rest"
    using Cons.prems by (intro Cons.IH) simp_all
  with k show ?case by simp
qed

lemma tailConsumer_milestone:
  assumes "\<not> ctxDoneInner env n (bundleTransactionsCounter s + 1)"
    and "99 \<le> length key"
    and "bundleStore env (databaseKeyForBundle env (slice key 50 99)) = Inr bundleData"
    and "bundleFactory env (databaseKeyForBundle env (slice key 50 99)) bundleData = Inr bundle"
    and "bundle_IsMilestone bundle"
    and "bundle_tailTx bundle \<noteq> []"
    and "txStore env (bundle_tailTx bundle) = Inr tailTxData"
    and "transactionFactory env (bundle_tailTx bundle) tailTxData = Inr tailTx"
  shows "tailConsumer env n s key =
           Inr (False, s\<lparr>bundleTransactionsCounter := bundleTransactionsCounter s + 1,
                          scan_milestoneIndex := word_of_int (TrytesToInt env (tx_ObsoleteTag tailTx))\<rparr>)"
  using assms
  by (simp add: tailConsumer_def getBundleMilestoneIndex_def Let_def)

lemma scan_first_milestone:
  assumes keys: "filter (hasPrefix (databaseKeyPrefixForBundleHash bh @ [BundleTxIsTail])) (bundleTransactionsStore env)
                   = pre @ key # post"
    and pre: "\<forall>k \<in> set pre. notMilestoneTail env k"
    and na: "\<forall>j. j \<le> length pre + 1 \<longrightarrow> \<not> ctxDoneInner env n j"
    and cand: "99 \<le> length key"
      "bundleStore env (databaseKeyForBundle env (slice key 50 99)) = Inr bundleData"
      "bundleFactory env (databaseKeyForBundle env (slice key 50 99)) bundleData = Inr bundle"
      "bundle_IsMilestone bundle"
    and tail: "bundle_tailTx bundle \<noteq> []"
      "txStore env (bundle_tailTx bundle) = Inr tailTxData"
      "transactionFactory env (bundle_tailTx bundle) tailTxData = Inr tailTx"
  shows "scanTails env n bh \<lparr>bundleTransactionsCounter = 0, scan_milestoneIndex = 0, scan_innerErr = e\<rparr>
           = Inr \<lparr>bundleTransactionsCounter = length pre + 1,
                  scan_milestoneIndex = word_of_int (TrytesToInt env (tx_ObsoleteTag tailTx)),
                  scan_innerErr = e\<rparr>"
proof -
  let ?s0 = "\<lparr>bundleTransactionsCounter = 0, scan_milestoneIndex = 0, scan_innerErr = e\<rparr>"
  let ?s1 = "?s0\<lparr>bundleTransactionsCounter := bundleTransactionsCounter ?s0 + length pre\<rparr>"
  have skip: "iterate (tailConsumer env n) ?s0 (pre @ key # post) = iterate (tailConsumer env n) ?s1 (key # post)"
    using pre na by (intro iterate_tail_skip) simp_all
  have "\<not> ctxDoneInner env n (bundleTransactionsCounter ?s1 + 1)"
    using na by simp
  from tailConsumer_milestone [OF this cand tail]
  have "iterate (tailConsumer env n) ?s1 (key # post)
          = Inr \<lparr>bundleTransactionsCounter = length pre + 1,
                 scan_milestoneIndex = word_of_int (TrytesToInt env (tx_ObsoleteTag tailTx)),
                 scan_innerErr = e\<rparr>"
    by simp
  with skip keys show ?thesis
    by (simp add: scanTails_def IterateKeys_def)
qed

lemma noAbort_simps [simp]:
  "txStore (noAbort env) = txStore env"
  "bundleStore (noAbort env) = bundleStore env"
  "bundleTransactionsStore (noAbort env) = bundleTransactionsStore env"
  "transactionFactory (noAbort env) = transactionFactory env"
  "bundleFactory (noAbort env) = bundleFactory env"
  "databaseKeyForBundle (noAbort env) = databaseKeyForBundle env"
  "TrytesToInt (noAbort env) = TrytesToInt env"
  "ctxDoneInner (noAbort env) n j = False"
  by (simp_all add: noAbort_def)

lemma notMilestoneTail_noAbort [simp]: "notMilestoneTail (noAbort env) k = notMilestoneTail env k"
  by (simp add: notMilestoneTail_def cong: sum.case_cong)

lemma resolvedIndex_first_milestone:
  assumes keys: "filter (hasPrefix (databaseKeyPrefixForBundleHash bh @ [BundleTxIsTail])) (bundleTransactionsStore env)
                   = pre @ key # post"
    and pre: "\<forall>k \<in> set pre. notMilestoneTail env k"
    and cand: "99 \<le> length key"
      "bundleStore env (databaseKeyForBundle env (slice key 50 99)) = Inr bundleData"
      "bundleFactory env (databaseKeyForBundle env (slice key 50 99)) bundleData = Inr bundle"
      "bundle_IsMilestone bundle"
    and tail: "bundle_tailTx bundle \<noteq> []"
      "txStore env (bundle_tailTx bundle) = Inr tailTxData"
      "transactionFactory env (bundle_tailTx bundle) tailTxData = Inr tailTx"
  shows "resolvedIndex env bh = word_of_int (TrytesToInt env (tx_ObsoleteTag tailTx))"
proof -
  have "scanTails (noAbort env) 0 bh \<lparr>bundleTransactionsCounter = 0, scan_milestoneIndex = 0, scan_innerErr = None\<rparr>
           = Inr \<lparr>bundleTransactionsCounter = length pre + 1,
                  scan_milestoneIndex = word_of_int (TrytesToInt (noAbort env) (tx_ObsoleteTag tailTx)),
                  scan_innerErr = None\<rparr>"
  proof (rule scan_first_milestone)
    show "filter (hasPrefix (databaseKeyPrefixForBundleHash bh @ [BundleTxIsTail])) (bundleTransactionsStore (noAbort env))
            = pre @ key # post"
      using keys by simp
    show "\<forall>k \<in> set pre. notMilestoneTail (noAbort env) k"
      using pre by simp
    show "\<forall>j. j \<le> length pre + 1 \<longrightarrow> \<not> ctxDoneInner (noAbort env) 0 j"
      by simp
    show "99 \<le> length key" by (rule cand)
    show "bundleStore (noAbort env) (databaseKeyForBundle (noAbort env) (slice key 50 99)) = Inr bundleData"
      using cand by simp
    show "bundleFactory (noAbort env) (databaseKeyForBundle (noAbort env) (slice key 50 99)) bundleData = Inr bundle"
      using cand by simp
    show "bundle_IsMilestone bundle" by (rule cand)
    show "bundle_tailTx bundle \<noteq> []" by (rule tail)
    show "txStore (noAbort env) (bundle_tailTx bundle) = Inr tailTxData"
      using tail by simp
    show "transactionFactory (noAbort env) (bundle_tailTx bundle) tailTxData = Inr tailTx"
      using tail by simp
  qed
  then show ?thesis
    by (simp add: resolvedIndex_def)
qed

lemma migrationPass_records:
  assumes "migrationPass env md = Inr st'" and "innerErr st' = None"
    and "hashesWellFormed env" and "distinct (map fst md)"
  shows "(\<forall>k d. (k, d) \<in> set md \<longrightarrow> (\<exists>r. passRecord env k d = Some r \<and> map_of (metadataStore st') k = Some r))
       \<and> map fst (metadataStore st') = map fst md"
proof -
  have c: "cacheSound env (milestoneCache (migrationStart md))"
    by (simp add: cacheSound_def migrationStart_def)
  have it: "iterate (metadataConsumer env) (migrationStart md) md = Inr st'"
    using assms(1) by (simp add: migrationPass_def)
  from iterate_pass [OF it assms(2) c assms(3,4)]
  show ?thesis
    by (simp add: migrationStart_def)
qed

section \<open>The resolved milestone index\<close>

lemma storedMetadata_Marshal:
  "map_of md key = Some (Marshal m) \<Longrightarrow>
   storedMetadata md key =
     Some ((NewTransactionMetadata (take HashSize key))
        \<lparr>metadata := metadata m, confirmationIndex := confirmationIndex m,
         trunkHash := padHash (trunkHash m), branchHash := padHash (branchHash m),
         bundleHash := padHash (bundleHash m), milestoneIndex := milestoneIndex m\<rparr>)"
  by (simp add: storedMetadata_def Unmarshal_Marshal)

text \<open>
  C1, as the code has it. On a cache miss for the bundle hash of \<open>tx\<close>, when the tail
  keys under that hash are \<open>pre @ key # post\<close>, the scan goes on after every key of
  \<open>pre\<close>, is not aborted, and the bundle of \<open>key\<close> is a milestone whose tail
  transaction \<open>tailTx\<close> is stored and parses: the consumer is called on \<open>length pre + 1\<close>
  keys, so the scan stops at that tail; the resolved index is the integer decoded from
  the obsolete tag of \<open>tailTx\<close>, cut to 32 bits (not from its timestamp); it is put
  into the cache under the bundle hash; and after a pass that returns no error, every
  migrated record whose transaction has that bundle hash carries it as milestone index.
\<close>

theorem milestone_index_from_obsolete_tag:
  assumes miss: "map_of (milestoneCache st) (take 49 (tx_BundleHash tx)) = None"
    and len: "49 \<le> length (tx_BundleHash tx)"
    and keys: "filter (hasPrefix (databaseKeyPrefixForBundleHash (tx_BundleHash tx) @ [BundleTxIsTail]))
                 (bundleTransactionsStore env) = pre @ key # post"
    and pre: "\<forall>k \<in> set pre. notMilestoneTail env k"
    and na: "\<forall>j. j \<le> length pre + 1 \<longrightarrow> \<not> ctxDoneInner env (transactionsCounter st) j"
    and cand: "99 \<le> length key"
      "bundleStore env (databaseKeyForBundle env (slice key 50 99)) = Inr bundleData"
      "bundleFactory env (databaseKeyForBundle env (slice key 50 99)) bundleData = Inr bundle"
      "bundle_IsMilestone bundle"
    and tail: "bundle_tailTx bundle \<noteq> []"
      "txStore env (bundle_tailTx bundle) = Inr tailTxData"
      "transactionFactory env (bundle_tailTx bundle) tailTxData = Inr tailTx"
  shows "scanTails env (transactionsCounter st) (tx_BundleHash tx)
           \<lparr>bundleTransactionsCounter = 0, scan_milestoneIndex = 0, scan_innerErr = innerErr st\<rparr>
           = Inr \<lparr>bundleTransactionsCounter = length pre + 1,
                  scan_milestoneIndex = word_of_int (TrytesToInt env (tx_ObsoleteTag tailTx)),
                  scan_innerErr = innerErr st\<rparr>
       \<and> resolveMilestoneIndex env st tx
           = Inr (word_of_int (TrytesToInt env (tx_ObsoleteTag tailTx)),
                  st\<lparr>milestoneCache := lru_Add (milestoneCache st) (take 49 (tx_BundleHash tx))
                                          (word_of_int (TrytesToInt env (tx_ObsoleteTag tailTx)))\<rparr>)
       \<and> (\<forall>md st' k d txData tx'.
             hashesWellFormed env \<and> distinct (map fst md)
             \<and> migrationPass env md = Inr st' \<and> innerErr st' = None
             \<and> (k, d) \<in> set md
             \<and> txStore env (take HashSize k) = Inr txData
             \<and> transactionFactory env (take HashSize k) txData = Inr tx'
             \<and> tx_BundleHash tx' = tx_BundleHash tx
             \<longrightarrow> (\<exists>m. storedMetadata (metadataStore st') k = Some m
                      \<and> milestoneIndex m = word_of_int (TrytesToInt env (tx_ObsoleteTag tailTx))))"
proof (intro conjI allI impI)
  let ?idx = "word_of_int (TrytesToInt env (tx_ObsoleteTag tailTx)) :: Index"
  show scan: "scanTails env (transactionsCounter st) (tx_BundleHash tx)
           \<lparr>bundleTransactionsCounter = 0, scan_milestoneIndex = 0, scan_innerErr = innerErr st\<rparr>
           = Inr \<lparr>bundleTransactionsCounter = length pre + 1, scan_milestoneIndex = ?idx,
                  scan_innerErr = innerErr st\<rparr>"
    by (rule scan_first_milestone [OF keys pre na cand tail])
  show "resolveMilestoneIndex env st tx
           = Inr (?idx, st\<lparr>milestoneCache := lru_Add (milestoneCache st) (take 49 (tx_BundleHash tx)) ?idx\<rparr>)"
    using miss len scan by (simp add: resolveMilestoneIndex_def lru_Get_def)
next
  let ?idx = "word_of_int (TrytesToInt env (tx_ObsoleteTag tailTx)) :: Index"
  fix md st' k d txData tx'
  assume a: "hashesWellFormed env \<and> distinct (map fst md)
             \<and> migrationPass env md = Inr st' \<and> innerErr st' = None
             \<and> (k, d) \<in> set md
             \<and> txStore env (take HashSize k) = Inr txData
             \<and> transactionFactory env (take HashSize k) txData = Inr tx'
             \<and> tx_BundleHash tx' = tx_BundleHash tx"
  then have "\<exists>r. passRecord env k d = Some r \<and> map_of (metadataStore st') k = Some r"
    using migrationPass_records [of env md st'] by blast
  then obtain tm where "map_of (metadataStore st') k
      = Some (Marshal (migratedMetadata tm tx' (resolvedIndex env (tx_BundleHash tx))))"
    using a by (auto simp add: passRecord_def split: sum.splits)
  from storedMetadata_Marshal [OF this]
  show "\<exists>m. storedMetadata (metadataStore st') k = Some m \<and> milestoneIndex m = ?idx"
    using resolvedIndex_first_milestone [OF keys pre cand tail]
    by (simp add: migratedMetadata_fields)
qed


lemma ex_hashesWellFormed: "hashesWellFormed ex_env"
  by (auto simp add: hashesWellFormed_def ex_env_def ex_tx1_def ex_tx2_def HashSize_def split: if_splits)

lemma ex_distinct: "distinct (map fst ex_metadata)"
  by (simp add: ex_metadata_def)

lemma ex_step2:
  "metadataConsumer ex_env
      \<lparr>metadataStore = md, milestoneCache = [(ex_B, 7)], innerErr = None, transactionsCounter = 1\<rparr>
      (ex_T2, [3, 0, 0, 0, 0, 5, 0, 0, 0])
     = Inr (True, \<lparr>metadataStore = kv_Set md ex_T2 ex_record2,
                   milestoneCache = [(ex_B, 7)], innerErr = None, transactionsCounter = 2\<rparr>)"
  by (simp add: metadataConsumer_def resolveMilestoneIndex_def legacyFields_def Let_def
        HashSize_def IndexByteSize_def Uint32_def lru_Get_def ex_record2_def)
     (simp add: ex_tx2_def)

lemma ex_pass:
  "migrationPass ex_env ex_metadata
     = Inr \<lparr>metadataStore = [(ex_T1, ex_record1), (ex_T2, ex_record2)],
            milestoneCache = [(ex_B, 7)], innerErr = None, transactionsCounter = 2\<rparr>"
proof -
  have "iterate (metadataConsumer ex_env) (migrationStart ex_metadata)
          [(ex_T1, [3, 0, 0, 0, 0, 5, 0, 0, 0]), (ex_T2, [3, 0, 0, 0, 0, 5, 0, 0, 0])]
        = Inr \<lparr>metadataStore = kv_Set (kv_Set ex_metadata ex_T1 ex_record1) ex_T2 ex_record2,
            milestoneCache = [(ex_B, 7)], innerErr = None, transactionsCounter = 2\<rparr>"
    unfolding ex_record1_def
    by (simp only: iterate.simps ex_step1 ex_step2 sum.case prod.case if_True)
  then show ?thesis
    by (simp add: migrationPass_def ex_metadata_def)
qed


lemma ex_tail_keys:
  "filter (hasPrefix (databaseKeyPrefixForBundleHash ex_B @ [BundleTxIsTail])) (bundleTransactionsStore ex_env)
     = [ex_B @ [1] @ ex_T1] @ (ex_B @ [1] @ ex_T2) # []"
  by (simp add: ex_bundleTransactions_def databaseKeyPrefixForBundleHash_def BundleTxIsTail_def)

lemma ex_notMilestoneTail: "\<forall>k \<in> set [ex_B @ [1] @ ex_T1]. notMilestoneTail ex_env k"
  by (simp add: notMilestoneTail_def)

lemma ex_stored1:
  "storedMetadata [(ex_T1, ex_record1), (ex_T2, ex_record2)] ex_T1
     = Some \<lparr>txHash = ex_T1, metadata = 91, confirmationIndex = 5, trunkHash = ex_trunk,
             branchHash = ex_branch, bundleHash = ex_B, milestoneIndex = 7\<rparr>"
proof -
  have "map_of [(ex_T1, ex_record1), (ex_T2, ex_record2)] ex_T1 = Some ex_record1"
    by simp
  from storedMetadata_Marshal [OF this [unfolded ex_record1_def]]
  show ?thesis
    by (simp add: ex_record1_def migratedMetadata_def NewTransactionMetadata_def padHash_id
          HashSize_def ex_tx1_def ModifyBit_def SetBit_def ClearBit_def
          TransactionMetadataIsHead_def TransactionMetadataIsTail_def TransactionMetadataIsValue_def
          TransactionMetadataIsMilestone_def)
qed

theorem milestone_index_from_obsolete_tag_witness:
  "scanTails ex_env 0 ex_B \<lparr>bundleTransactionsCounter = 0, scan_milestoneIndex = 0, scan_innerErr = None\<rparr>
     = Inr \<lparr>bundleTransactionsCounter = 2, scan_milestoneIndex = 7, scan_innerErr = None\<rparr>
   \<and> resolveMilestoneIndex ex_env (migrationStart ex_metadata) ex_tx1
     = Inr (7, (migrationStart ex_metadata)\<lparr>milestoneCache := [(ex_B, 7)]\<rparr>)
   \<and> tx_ObsoleteTag ex_tx2 = ''G'' \<and> TrytesToInt ex_env ''G'' = 7
   \<and> migrationPass ex_env ex_metadata
     = Inr \<lparr>metadataStore = [(ex_T1, ex_record1), (ex_T2, ex_record2)],
            milestoneCache = [(ex_B, 7)], innerErr = None, transactionsCounter = 2\<rparr>
   \<and> storedMetadata [(ex_T1, ex_record1), (ex_T2, ex_record2)] ex_T1
     = Some \<lparr>txHash = ex_T1, metadata = 91, confirmationIndex = 5, trunkHash = ex_trunk,
             branchHash = ex_branch, bundleHash = ex_B, milestoneIndex = 7\<rparr>"
proof -
  let ?st = "migrationStart ex_metadata"
  have miss: "map_of (milestoneCache ?st) (take 49 (tx_BundleHash ex_tx1)) = None"
    by (simp add: migrationStart_def)
  have len: "49 \<le> length (tx_BundleHash ex_tx1)"
    by (simp add: ex_tx1_def)
  have keys: "filter (hasPrefix (databaseKeyPrefixForBundleHash (tx_BundleHash ex_tx1) @ [BundleTxIsTail]))
                (bundleTransactionsStore ex_env) = [ex_B @ [1] @ ex_T1] @ (ex_B @ [1] @ ex_T2) # []"
    using ex_tail_keys by (simp add: ex_tx1_def)
  have na: "\<forall>j. j \<le> length [ex_B @ [1] @ ex_T1] + 1 \<longrightarrow> \<not> ctxDoneInner ex_env (transactionsCounter ?st) j"
    by simp
  have cand: "99 \<le> length (ex_B @ [1] @ ex_T2)"
    "bundleStore ex_env (databaseKeyForBundle ex_env (slice (ex_B @ [1] @ ex_T2) 50 99)) = Inr [2]"
    "bundleFactory ex_env (databaseKeyForBundle ex_env (slice (ex_B @ [1] @ ex_T2) 50 99)) [2]
       = Inr \<lparr>bundle_hash = ex_B, bundle_tailTx = ex_T2, bundle_IsMilestone = True\<rparr>"
    "bundle_IsMilestone \<lparr>bundle_hash = ex_B, bundle_tailTx = ex_T2, bundle_IsMilestone = True\<rparr>"
    by simp_all
  have tail: "bundle_tailTx \<lparr>bundle_hash = ex_B, bundle_tailTx = ex_T2, bundle_IsMilestone = True\<rparr> \<noteq> []"
    "txStore ex_env (bundle_tailTx \<lparr>bundle_hash = ex_B, bundle_tailTx = ex_T2, bundle_IsMilestone = True\<rparr>) = Inr [2]"
    "transactionFactory ex_env (bundle_tailTx \<lparr>bundle_hash = ex_B, bundle_tailTx = ex_T2, bundle_IsMilestone = True\<rparr>) [2]
       = Inr ex_tx2"
    by simp_all
  note main = milestone_index_from_obsolete_tag [OF miss len keys ex_notMilestoneTail na cand tail]
  have tag: "tx_ObsoleteTag ex_tx2 = ''G''" "TrytesToInt ex_env ''G'' = 7"
    by (simp_all add: ex_tx2_def)
  have "\<exists>m. storedMetadata (metadataStore \<lparr>metadataStore = [(ex_T1, ex_record1), (ex_T2, ex_record2)],
            milestoneCache = [(ex_B, 7)], innerErr = None, transactionsCounter = 2\<rparr>) ex_T1 = Some m
          \<and> milestoneIndex m = word_of_int (TrytesToInt ex_env (tx_ObsoleteTag ex_tx2))"
    using main [THEN conjunct2, THEN conjunct2, rule_format, of ex_metadata _ ex_T1 "[3, 0, 0, 0, 0, 5, 0, 0, 0]" "[1]" ex_tx1]
      ex_hashesWellFormed ex_distinct ex_pass
    by (simp add: HashSize_def ex_metadata_def)
  with main ex_pass ex_stored1 tag show ?thesis
    by (simp add: ex_tx1_def migrationStart_def lru_Add_def milestoneCacheSize_def)
qed

text \<open>In the small store the milestone bundle has the tail transaction \<open>ex_tx2\<close> with
  timestamp 1000, and the index resolved for its bundle hash is 7.\<close>

theorem milestone_index_timestamp_counterexample:
  "bundleFactory ex_env (databaseKeyForBundle ex_env ex_T2) [2]
     = Inr \<lparr>bundle_hash = ex_B, bundle_tailTx = ex_T2, bundle_IsMilestone = True\<rparr>
   \<and> transactionFactory ex_env ex_T2 [2] = Inr ex_tx2
   \<and> tx_Timestamp ex_tx2 = 1000
   \<and> resolveMilestoneIndex ex_env (migrationStart ex_metadata) ex_tx1
       = Inr (7, (migrationStart ex_metadata)\<lparr>milestoneCache := [(ex_B, 7)]\<rparr>)
   \<and> uint (7 :: Index) \<noteq> uint (tx_Timestamp ex_tx2)"
  by (simp add: ex_resolve_miss migrationStart_def lru_Add_def milestoneCacheSize_def)
     (simp add: ex_tx2_def)

section \<open>A second pass\<close>






















end
